theory Spec2Isabelle
  imports Complex_Main "HOL-Library.Word" "HOL-Library.Char_ord" "HOL-Library.List_Lexorder"
begin

section \<open>Values shared by every plugin\<close>

text \<open>
  A Go \<open>interface{}\<close> holding decoded JSON: \<open>encoding/json\<close> decodes every JSON number
  into a \<open>float64\<close>, a JSON object into a \<open>map[string]interface{}\<close>. The type of
  \<open>float64\<close> values is the parameter \<open>'f\<close>: the arithmetic on them is the Go runtime's
  and reaches the model as a record of operations (\<open>float64\<close> below).
\<close>

datatype 'f json =
    JNull
  | JBool bool
  | JNumber 'f
  | JString string
  | JArray "'f json list"
  | JObject "string \<rightharpoonup> 'f json"

text \<open>
  \<open>map[string]interface{}\<close>. Reading a key of a nil map gives the same answer as reading
  it in an empty map, and no modelled function writes to its parameter map, so a nil
  parameter map is the empty map here.
\<close>

type_synonym 'f params = "string \<rightharpoonup> 'f json"

text \<open>
  What a handler returns, \<open>(map[string]interface{}, error)\<close>: the map may be nil
  (\<open>None\<close>), the error is its \<open>Error()\<close> text or nil (\<open>None\<close>).
\<close>

type_synonym 'f go_result = "'f params option \<times> string option"

text \<open>A value boxed in the \<open>Default interface{}\<close> field of a parameter specification.\<close>

datatype go_value = GoInt int | GoString string | GoBool bool

record Metadata =
  Name :: string
  Version :: string
  Description :: string
  Author :: string
  Tags :: "string list"

record IOSpec =
  Type :: string
  Required :: bool
  Default :: "go_value option"
  Description :: string

record ActionSpec =
  Description :: string
  Inputs :: "string \<rightharpoonup> IOSpec"
  Outputs :: "string \<rightharpoonup> IOSpec"

text \<open>The specification of input \<open>name\<close> of action \<open>action\<close> in an action table.\<close>

definition input_spec :: "(string \<rightharpoonup> ActionSpec) \<Rightarrow> string \<Rightarrow> string \<Rightarrow> IOSpec option" where
  "input_spec actions action name =
     (case actions action of None \<Rightarrow> None | Some spec \<Rightarrow> Inputs spec name)"

text \<open>
  The \<open>float64\<close> operations the plugins use, as the Go runtime, \<open>math\<close>, \<open>strconv\<close> and
  \<open>fmt\<close> provide them: \<open>fadd\<close>, \<open>fsub\<close>, \<open>fmul\<close>, \<open>fquo\<close> and \<open>fneg\<close> are \<open>+ - * /\<close> and unary
  minus, \<open>is_zero x\<close> is \<open>x == 0\<close>, \<open>float64_of_int\<close> and \<open>int_of_float64\<close> are the
  conversions \<open>float64(i)\<close> and \<open>int(x)\<close>, \<open>fmt_2f\<close> is \<open>fmt.Sprintf("%.2f", x)\<close>.
\<close>

record 'f float64 =
  fadd :: "'f \<Rightarrow> 'f \<Rightarrow> 'f"
  fsub :: "'f \<Rightarrow> 'f \<Rightarrow> 'f"
  fmul :: "'f \<Rightarrow> 'f \<Rightarrow> 'f"
  fquo :: "'f \<Rightarrow> 'f \<Rightarrow> 'f"
  fneg :: "'f \<Rightarrow> 'f"
  is_zero :: "'f \<Rightarrow> bool"
  float64_of_int :: "int \<Rightarrow> 'f"
  int_of_float64 :: "'f \<Rightarrow> int"
  math_Mod :: "'f \<Rightarrow> 'f \<Rightarrow> 'f"
  math_Pow :: "'f \<Rightarrow> 'f \<Rightarrow> 'f"
  math_Round :: "'f \<Rightarrow> 'f"
  math_Pi :: 'f
  math_E :: 'f
  ParseFloat :: "string \<Rightarrow> string + 'f"
  fmt_2f :: "'f \<Rightarrow> string"

text \<open>
  What \<open>float64\<close> arithmetic guarantees on integers: a sum, product or quotient of two
  integers of magnitude up to \<open>2^53\<close> that is itself such an integer is computed exactly
  (IEEE 754), \<open>math.Round\<close> of an integer returns it, and \<open>math.Pow\<close> gives the powers of
  ten up to \<open>10^15\<close> exactly.
\<close>

definition exact_on_integers :: "'f float64 \<Rightarrow> bool" where
  "exact_on_integers ops \<longleftrightarrow>
     (\<forall>a b. \<bar>a\<bar> \<le> 2 ^ 53 \<and> \<bar>b\<bar> \<le> 2 ^ 53 \<longrightarrow>
        (\<bar>a + b\<bar> \<le> 2 ^ 53 \<longrightarrow>
           fadd ops (float64_of_int ops a) (float64_of_int ops b) = float64_of_int ops (a + b)) \<and>
        (\<bar>a * b\<bar> \<le> 2 ^ 53 \<longrightarrow>
           fmul ops (float64_of_int ops a) (float64_of_int ops b) = float64_of_int ops (a * b)) \<and>
        (b \<noteq> 0 \<and> b dvd a \<longrightarrow>
           fquo ops (float64_of_int ops a) (float64_of_int ops b) = float64_of_int ops (a div b)) \<and>
        math_Round ops (float64_of_int ops a) = float64_of_int ops a) \<and>
     (\<forall>n. 0 \<le> n \<and> n \<le> 15 \<longrightarrow>
        math_Pow ops (float64_of_int ops 10) (float64_of_int ops n) = float64_of_int ops (10 ^ nat n))"

section \<open>The process boundary\<close>

text \<open>
  What \<open>main\<close> hands to \<open>json.NewEncoder(os.Stdout).Encode\<close>: the plugin's metadata, its
  action table, or a result map (\<open>None\<close> is the nil map).
\<close>

datatype ('m, 'a, 'f) reply =
    OutMetadata 'm
  | OutActions 'a
  | OutResult "'f params option"

text \<open>
  One run of \<open>main\<close> in which every call returns: \<open>stdout\<close> lists the values handed to
  \<open>json.NewEncoder(os.Stdout).Encode\<close> in order, \<open>exit_code\<close> is the exit status (0 when
  \<open>main\<close> returns), \<open>stdin_read\<close> tells whether standard input was read, \<open>executed\<close> lists
  the calls of \<open>plugin.Execute\<close> with the action name and the parameter map passed. What
  reaches standard output, and what a panic does, is \<open>process_of\<close> below.
\<close>

record ('m, 'a, 'f) outcome =
  stdout :: "('m, 'a, 'f) reply list"
  exit_code :: int
  stdin_read :: bool
  executed :: "(string \<times> 'f params) list"

text \<open>
  A plugin as \<open>main\<close> sees it. \<open>'r\<close> is what \<open>Execute\<close> returns: a map and an error in most
  plugins, a map alone in the slack and llm plugins.
\<close>

record ('m, 'a, 'f, 'r) plugin =
  GetMetadata :: 'm
  GetActions :: 'a
  Execute :: "string \<Rightarrow> 'f params \<Rightarrow> 'r"

definition error_envelope :: "string \<Rightarrow> ('m, 'a, 'f) reply" where
  "error_envelope msg = OutResult (Some [''error'' \<mapsto> JString msg])"

text \<open>
  \<open>os.Args\<close> shorter than 2: the envelope \<open>{"error": "action required"}\<close> and
  \<open>os.Exit(1)\<close>. Every \<open>main\<close> below starts with it.
\<close>

definition action_required :: "('m, 'a, 'f) outcome" where
  "action_required =
     \<lparr>stdout = [error_envelope ''action required''], exit_code = 1,
      stdin_read = False, executed = []\<rparr>"

text \<open>Execute mode: at least one argument, which is neither \<open>metadata\<close> nor \<open>actions\<close>.\<close>

definition execute_mode :: "string list \<Rightarrow> bool" where
  "execute_mode Args \<longleftrightarrow> length Args \<ge> 2 \<and> Args ! 1 \<noteq> ''metadata'' \<and> Args ! 1 \<noteq> ''actions''"

text \<open>What \<open>main\<close> writes for the pair \<open>Execute\<close> returned: the error envelope when the error is set.\<close>

definition reply_of :: "'f go_result \<Rightarrow> ('m, 'a, 'f) reply" where
  "reply_of r = (case r of (result, Some err) \<Rightarrow> error_envelope err | (result, None) \<Rightarrow> OutResult result)"

text \<open>\<open>result, err = plugin.Execute(action, params)\<close> and the replacement of \<open>result\<close> on an error.\<close>

definition run_Execute ::
  "('m, 'a, 'f, 'f go_result) plugin \<Rightarrow> string \<Rightarrow> 'f params \<Rightarrow> ('m, 'a, 'f) outcome" where
  "run_Execute plugin action params =
     (case Execute plugin action params of
        (result, Some err) \<Rightarrow>
          \<lparr>stdout = [error_envelope err], exit_code = 0,
           stdin_read = True, executed = [(action, params)]\<rparr>
      | (result, None) \<Rightarrow>
          \<lparr>stdout = [OutResult result], exit_code = 0,
           stdin_read = True, executed = [(action, params)]\<rparr>)"

text \<open>
  The \<open>main\<close> of the calculator, http, template, sql and aws plugins, which differ in the
  text \<open>parse_msg\<close> put before a JSON error only. \<open>Args\<close> is \<open>os.Args\<close>; \<open>Stdin\<close> is what
  \<open>io.ReadAll(os.Stdin)\<close> returns if called, an error text or the bytes; \<open>Unmarshal\<close> is
  \<open>json.Unmarshal\<close> into a \<open>map[string]interface{}\<close>, giving the error text or the map.
\<close>

definition std_main ::
  "string \<Rightarrow> (string \<Rightarrow> string + 'f params) \<Rightarrow> ('m, 'a, 'f, 'f go_result) plugin \<Rightarrow>
   string list \<Rightarrow> string + string \<Rightarrow> ('m, 'a, 'f) outcome" where
  "std_main parse_msg Unmarshal plugin Args Stdin =
     (if length Args < 2 then action_required
      else
        let action = Args ! 1
        in if action = ''metadata'' then
             \<lparr>stdout = [OutMetadata (GetMetadata plugin)], exit_code = 0,
              stdin_read = False, executed = []\<rparr>
           else if action = ''actions'' then
             \<lparr>stdout = [OutActions (GetActions plugin)], exit_code = 0,
              stdin_read = False, executed = []\<rparr>
           else
             (case Stdin of
                Inl err \<Rightarrow>
                  \<lparr>stdout = [error_envelope (''failed to read input: '' @ err)],
                   exit_code = 0, stdin_read = True, executed = []\<rparr>
              | Inr inputData \<Rightarrow>
                  if length inputData > 0 then
                    (case Unmarshal inputData of
                       Inl err \<Rightarrow>
                         \<lparr>stdout = [error_envelope (parse_msg @ err)],
                          exit_code = 0, stdin_read = True, executed = []\<rparr>
                     | Inr params \<Rightarrow> run_Execute plugin action params)
                  else run_Execute plugin action Map.empty))"

subsection \<open>Panics and the encoder\<close>

text \<open>
  A Go call that returns or panics; \<open>Panics m\<close> carries the panic's message.
\<close>

datatype 'r go = Returns 'r | Panics string

text \<open>
  What a call gives where it returns, and whether it panics. Where it panics the
  process ends (\<open>process_of\<close>), and the value \<open>returned\<close> gives there is never used.
\<close>

definition returned :: "'f go_result go \<Rightarrow> 'f go_result" where
  "returned call = (case call of Returns r \<Rightarrow> r | Panics m \<Rightarrow> (None, None))"

definition panicked :: "'r go \<Rightarrow> bool" where
  "panicked call = (case call of Returns r \<Rightarrow> False | Panics m \<Rightarrow> True)"

text \<open>
  What the operating system sees of a run: the documents written to standard output and
  the exit status. \<open>Encode\<close> is \<open>json.NewEncoder(os.Stdout).Encode\<close>: the document it
  writes, or \<open>None\<close> when it cannot encode the value (a NaN or an infinite number) and
  writes nothing; every \<open>main\<close> ignores its error. \<open>panics\<close> tells for which action and
  parameters the call of \<open>plugin.Execute\<close> panics. Every \<open>main\<close> calls \<open>Execute\<close> before it
  writes and none recovers from a panic, so the Go runtime then ends the process with
  status 2 and standard output empty.
\<close>

record process =
  written :: "string list"
  status :: int

definition process_of ::
  "(('m, 'a, 'f) reply \<Rightarrow> string option) \<Rightarrow> (string \<Rightarrow> 'f params \<Rightarrow> bool) \<Rightarrow>
   ('m, 'a, 'f) outcome \<Rightarrow> process" where
  "process_of Encode panics out =
     (if list_ex (\<lambda>(action, params). panics action params) (executed out)
      then \<lparr>written = [], status = 2\<rparr>
      else \<lparr>written = List.map_filter Encode (stdout out), status = exit_code out\<rparr>)"

text \<open>
  The exit behaviour of a run with the arguments \<open>Args\<close> whose \<open>main\<close>, all calls
  returning, has the outcome \<open>out\<close>: without a mode argument the envelope
  \<open>{"error": "action required"}\<close> goes to the encoder and the status is 1; with one, the
  status is 2 and nothing is written if the call of \<open>Execute\<close> panics, and otherwise the
  values of \<open>out\<close> go to the encoder and the status is 0.
\<close>

definition exit_behaviour ::
  "(('m, 'a, 'f) reply \<Rightarrow> string option) \<Rightarrow> (string \<Rightarrow> 'f params \<Rightarrow> bool) \<Rightarrow>
   string list \<Rightarrow> ('m, 'a, 'f) outcome \<Rightarrow> process" where
  "exit_behaviour Encode panics Args out =
     (if length Args < 2
      then \<lparr>written = List.map_filter Encode [error_envelope ''action required''], status = 1\<rparr>
      else if list_ex (\<lambda>(action, params). panics action params) (executed out)
      then \<lparr>written = [], status = 2\<rparr>
      else \<lparr>written = List.map_filter Encode (stdout out), status = 0\<rparr>)"

section \<open>The calculator plugin (official/calculator/plugin.go)\<close>

subsection \<open>The integer literals: strconv.ParseInt(s, 10, 64)\<close>

datatype num_error = ErrSyntax | ErrRange

definition is_digit :: "char \<Rightarrow> bool" where
  "is_digit c = (48 \<le> (of_char c :: nat) \<and> (of_char c :: nat) \<le> 57)"

definition digit_val :: "char \<Rightarrow> nat" where
  "digit_val c = (of_char c :: nat) - 48"

text \<open>
  The digit loop of \<open>ParseUint\<close> in base 10 with 64 bits: a byte that is no digit is a
  syntax error, and a value beyond \<open>2^64 - 1\<close> a range error, whichever comes first.
\<close>

fun parse_uint_loop :: "string \<Rightarrow> nat \<Rightarrow> num_error + nat" where
  "parse_uint_loop [] n = Inr n"
| "parse_uint_loop (c # cs) n =
     (if \<not> is_digit c then Inl ErrSyntax
      else if n \<ge> (2 ^ 64 - 1) div 10 + 1 then Inl ErrRange
      else if n * 10 + digit_val c > 2 ^ 64 - 1 then Inl ErrRange
      else parse_uint_loop cs (n * 10 + digit_val c))"

text \<open>
  The \<open>Error()\<close> text of a \<open>*strconv.NumError\<close>. It quotes the literal with
  \<open>strconv.Quote\<close>, which leaves the letters, digits, dots and underscores of an integer
  literal as they are.
\<close>

definition num_error_text :: "string \<Rightarrow> num_error \<Rightarrow> string" where
  "num_error_text s e =
     ''strconv.ParseInt: parsing '' @ [CHR 0x22] @ s @ [CHR 0x22] @
     (case e of ErrSyntax \<Rightarrow> '': invalid syntax'' | ErrRange \<Rightarrow> '': value out of range'')"

definition ParseInt :: "string \<Rightarrow> string + int" where
  "ParseInt s =
     (if s = [] then Inl (num_error_text s ErrSyntax)
      else
        let neg = (hd s = CHR ''-'');
            ds = (if hd s = CHR ''+'' \<or> hd s = CHR ''-'' then tl s else s)
        in if ds = [] then Inl (num_error_text s ErrSyntax)
           else (case parse_uint_loop ds 0 of
                   Inl ErrSyntax \<Rightarrow> Inl (num_error_text s ErrSyntax)
                 | Inl ErrRange \<Rightarrow> Inl (num_error_text s ErrRange)
                 | Inr un \<Rightarrow>
                     if \<not> neg \<and> un \<ge> 2 ^ 63 then Inl (num_error_text s ErrRange)
                     else if neg \<and> un > 2 ^ 63 then Inl (num_error_text s ErrRange)
                     else Inr (if neg then - int un else int un)))"

subsection \<open>The syntax tree of go/ast\<close>

text \<open>
  The tokens the evaluator tells apart; \<open>Tok s\<close> is any other token, \<open>s\<close> its \<open>String()\<close>.
\<close>

datatype token = ADD | SUB | MUL | QUO | REM | INT_kind | FLOAT | Tok string

fun token_String :: "token \<Rightarrow> string" where
  "token_String ADD = ''+''"
| "token_String SUB = ''-''"
| "token_String MUL = ''*''"
| "token_String QUO = ''/''"
| "token_String REM = ''%''"
| "token_String INT_kind = ''INT''"
| "token_String FLOAT = ''FLOAT''"
| "token_String (Tok s) = s"

text \<open>
  The nodes \<open>evalNode\<close> tells apart; \<open>OtherNode t\<close> is a node of any other type, \<open>t\<close> the
  name \<open>%T\<close> prints for it.
\<close>

datatype node =
    BinaryExpr node token node
  | UnaryExpr token node
  | ParenExpr node
  | BasicLit token string
  | Ident string
  | OtherNode string

subsection \<open>Evaluation\<close>

definition evalBasicLit :: "'f float64 \<Rightarrow> token \<Rightarrow> string \<Rightarrow> string + 'f" where
  "evalBasicLit ops kind val =
     (case kind of
        INT_kind \<Rightarrow>
          (case ParseInt val of
             Inl err \<Rightarrow> Inl (''invalid integer: '' @ err)
           | Inr v \<Rightarrow> Inr (float64_of_int ops v))
      | FLOAT \<Rightarrow>
          (case ParseFloat ops val of
             Inl err \<Rightarrow> Inl (''invalid float: '' @ err)
           | Inr v \<Rightarrow> Inr v)
      | _ \<Rightarrow> Inl (''unsupported literal type: '' @ token_String kind))"

function evalNode :: "'f float64 \<Rightarrow> node \<Rightarrow> string + 'f"
  and evalBinaryExpr :: "'f float64 \<Rightarrow> node \<Rightarrow> token \<Rightarrow> node \<Rightarrow> string + 'f"
  and evalUnaryExpr :: "'f float64 \<Rightarrow> token \<Rightarrow> node \<Rightarrow> string + 'f"
where
  "evalNode ops (BinaryExpr x op y) = evalBinaryExpr ops x op y"
| "evalNode ops (UnaryExpr op x) = evalUnaryExpr ops op x"
| "evalNode ops (ParenExpr x) = evalNode ops x"
| "evalNode ops (BasicLit kind val) = evalBasicLit ops kind val"
| "evalNode ops (Ident name) =
     (if name = ''pi'' then Inr (math_Pi ops)
      else if name = ''e'' then Inr (math_E ops)
      else Inl (''undefined identifier: '' @ name))"
| "evalNode ops (OtherNode t) = Inl (''unsupported expression type: '' @ t)"
| "evalBinaryExpr ops x op y =
     (case evalNode ops x of
        Inl err \<Rightarrow> Inl err
      | Inr left \<Rightarrow>
          (case evalNode ops y of
             Inl err \<Rightarrow> Inl err
           | Inr right \<Rightarrow>
               (case op of
                  ADD \<Rightarrow> Inr (fadd ops left right)
                | SUB \<Rightarrow> Inr (fsub ops left right)
                | MUL \<Rightarrow> Inr (fmul ops left right)
                | QUO \<Rightarrow>
                    if is_zero ops right then Inl ''division by zero''
                    else Inr (fquo ops left right)
                | REM \<Rightarrow>
                    if is_zero ops right then Inl ''modulo by zero''
                    else Inr (math_Mod ops left right)
                | _ \<Rightarrow> Inl (''unsupported binary operator: '' @ token_String op))))"
| "evalUnaryExpr ops op x =
     (case evalNode ops x of
        Inl err \<Rightarrow> Inl err
      | Inr operand \<Rightarrow>
          (case op of
             ADD \<Rightarrow> Inr operand
           | SUB \<Rightarrow> Inr (fneg ops operand)
           | _ \<Rightarrow> Inl (''unsupported unary operator: '' @ token_String op)))"
  by pat_completeness auto
termination
  by (relation "measure (\<lambda>v. case v of
          Inl (_, n) \<Rightarrow> 2 * size n
        | Inr (Inl (_, x, _, y)) \<Rightarrow> 2 * (size x + size y) + 1
        | Inr (Inr (_, _, x)) \<Rightarrow> 2 * size x + 1)") auto

text \<open>
  Evaluation of a tree reaches a division or modulo whose right operand is zero:
  \<open>evalBinaryExpr\<close> evaluates the left operand, then the right one, and stops at the
  first error, so the zero divisor is reached in the left operand, or, the left operand
  having a value, in the right operand, or, both having values, at this node, when its
  operator is \<open>/\<close> or \<open>%\<close> and the right value equals zero.
\<close>

fun reaches_zero_divisor :: "'f float64 \<Rightarrow> node \<Rightarrow> bool" where
  "reaches_zero_divisor ops (BinaryExpr x op y) =
     (reaches_zero_divisor ops x \<or>
      (case evalNode ops x of
         Inl err \<Rightarrow> False
       | Inr left \<Rightarrow>
           reaches_zero_divisor ops y \<or>
           (case evalNode ops y of
              Inl err \<Rightarrow> False
            | Inr right \<Rightarrow> (op = QUO \<or> op = REM) \<and> is_zero ops right)))"
| "reaches_zero_divisor ops (UnaryExpr op x) = reaches_zero_divisor ops x"
| "reaches_zero_divisor ops (ParenExpr x) = reaches_zero_divisor ops x"
| "reaches_zero_divisor ops (BasicLit kind val) = False"
| "reaches_zero_divisor ops (Ident name) = False"
| "reaches_zero_divisor ops (OtherNode t) = False"

text \<open>
  \<open>evaluateExpression\<close>: \<open>parser.ParseExpr\<close> of \<open>go/parser\<close> is the parameter \<open>ParseExpr\<close>,
  giving the error text or the tree.
\<close>

definition evaluateExpression ::
  "'f float64 \<Rightarrow> (string \<Rightarrow> string + node) \<Rightarrow> string \<Rightarrow> string + 'f" where
  "evaluateExpression ops ParseExpr expr =
     (case ParseExpr expr of
        Inl err \<Rightarrow> Inl (''syntax error: '' @ err)
      | Inr n \<Rightarrow> evalNode ops n)"

subsection \<open>The action and the plugin\<close>

text \<open>The local \<open>precision\<close> of \<open>calculate\<close> (lines 92 to 98).\<close>

definition calculate_precision :: "'f float64 \<Rightarrow> 'f params \<Rightarrow> int" where
  "calculate_precision ops params =
     (case params ''precision'' of
        Some (JNumber prec) \<Rightarrow>
          (let precision = int_of_float64 ops prec
           in if precision < 0 then 0 else precision)
      | _ \<Rightarrow> 2)"

text \<open>The rounding of the result to \<open>precision\<close> decimals (lines 110 to 115).\<close>

definition apply_precision :: "'f float64 \<Rightarrow> int \<Rightarrow> 'f \<Rightarrow> 'f" where
  "apply_precision ops precision result =
     (if precision > 0 then
        (let multiplier = math_Pow ops (float64_of_int ops 10) (float64_of_int ops precision)
         in fquo ops (math_Round ops (fmul ops result multiplier)) multiplier)
      else math_Round ops result)"

definition calculate ::
  "'f float64 \<Rightarrow> (string \<Rightarrow> string + node) \<Rightarrow> 'f params \<Rightarrow> 'f go_result" where
  "calculate ops ParseExpr params =
     (case params ''expression'' of
        Some (JString expression) \<Rightarrow>
          if expression = [] then
            (Some [''error'' \<mapsto> JString ''expression parameter is required''], None)
          else
            (let precision = calculate_precision ops params
             in case evaluateExpression ops ParseExpr expression of
                  Inl err \<Rightarrow>
                    (Some [''error'' \<mapsto> JString (''Invalid expression: '' @ err),
                           ''expression'' \<mapsto> JString expression], None)
                | Inr result \<Rightarrow>
                    (Some [''result'' \<mapsto> JNumber (apply_precision ops precision result),
                           ''expression'' \<mapsto> JString expression], None))
      | _ \<Rightarrow> (Some [''error'' \<mapsto> JString ''expression parameter is required''], None))"

definition calculator_Execute ::
  "'f float64 \<Rightarrow> (string \<Rightarrow> string + node) \<Rightarrow> string \<Rightarrow> 'f params \<Rightarrow> 'f go_result" where
  "calculator_Execute ops ParseExpr action params =
     (if action = ''calculate'' then calculate ops ParseExpr params
      else (None, Some (''unknown action: '' @ action)))"

definition calculator_GetMetadata :: Metadata where
  "calculator_GetMetadata =
     \<lparr>Name = ''calculator'', Version = ''1.0.0'',
      Description = ''Mathematical calculations with safe expression evaluation'',
      Author = ''Corynth Team'',
      Tags = [''math'', ''calculation'', ''utility'', ''ast'']\<rparr>"

definition calculator_GetActions :: "string \<rightharpoonup> ActionSpec" where
  "calculator_GetActions =
     [''calculate'' \<mapsto>
        \<lparr>Description = ''Perform safe mathematical calculations using AST parsing'',
         Inputs =
           [''expression'' \<mapsto>
              \<lparr>Type = ''string'', Required = True, Default = None,
               Description =
                 ''Mathematical expression to evaluate (supports +, -, *, /, %, parentheses)''\<rparr>,
            ''precision'' \<mapsto>
              \<lparr>Type = ''number'', Required = False, Default = Some (GoInt 2),
               Description = ''Decimal precision for results''\<rparr>],
         Outputs =
           [''result'' \<mapsto>
              \<lparr>Type = ''number'', Required = False, Default = None,
               Description = ''Calculation result''\<rparr>,
            ''expression'' \<mapsto>
              \<lparr>Type = ''string'', Required = False, Default = None,
               Description = ''Original expression''\<rparr>]\<rparr>]"

definition calculator_plugin ::
  "'f float64 \<Rightarrow> (string \<Rightarrow> string + node) \<Rightarrow>
   (Metadata, string \<rightharpoonup> ActionSpec, 'f, 'f go_result) plugin" where
  "calculator_plugin ops ParseExpr =
     \<lparr>GetMetadata = calculator_GetMetadata, GetActions = calculator_GetActions,
      Execute = calculator_Execute ops ParseExpr\<rparr>"

definition calculator_main ::
  "'f float64 \<Rightarrow> (string \<Rightarrow> string + node) \<Rightarrow> (string \<Rightarrow> string + 'f params) \<Rightarrow>
   string list \<Rightarrow> string + string \<Rightarrow> (Metadata, string \<rightharpoonup> ActionSpec, 'f) outcome" where
  "calculator_main ops ParseExpr Unmarshal =
     std_main ''failed to parse JSON: '' Unmarshal (calculator_plugin ops ParseExpr)"

section \<open>The plugin template (official/template/plugin-template.go)\<close>

definition getStringParam :: "'f params \<Rightarrow> string \<Rightarrow> string \<Rightarrow> string" where
  "getStringParam params key defaultValue =
     (case params key of Some (JString val) \<Rightarrow> val | _ \<Rightarrow> defaultValue)"

definition getFloatParam :: "'f params \<Rightarrow> string \<Rightarrow> 'f \<Rightarrow> 'f" where
  "getFloatParam params key defaultValue =
     (case params key of Some (JNumber val) \<Rightarrow> val | _ \<Rightarrow> defaultValue)"

definition getBoolParam :: "'f params \<Rightarrow> string \<Rightarrow> bool \<Rightarrow> bool" where
  "getBoolParam params key defaultValue =
     (case params key of Some (JBool val) \<Rightarrow> val | _ \<Rightarrow> defaultValue)"

definition getArrayParam :: "'f params \<Rightarrow> string \<Rightarrow> 'f json list" where
  "getArrayParam params key =
     (case params key of Some (JArray val) \<Rightarrow> val | _ \<Rightarrow> [])"

definition errorResponse :: "string \<Rightarrow> 'f params" where
  "errorResponse err = [''error'' \<mapsto> JString err]"

text \<open>
  The local \<open>optionalParam\<close> of \<open>exampleAction\<close> (lines 115 to 121); the constant \<open>10.0\<close>
  is the \<open>float64\<close> of the integer 10.
\<close>

definition exampleAction_optionalParam :: "'f float64 \<Rightarrow> 'f params \<Rightarrow> 'f" where
  "exampleAction_optionalParam ops params =
     (case params ''optional_param'' of
        Some val \<Rightarrow> (case val of JNumber floatVal \<Rightarrow> floatVal | _ \<Rightarrow> float64_of_int ops 10)
      | None \<Rightarrow> float64_of_int ops 10)"

definition exampleAction :: "'f float64 \<Rightarrow> 'f params \<Rightarrow> 'f go_result" where
  "exampleAction ops params =
     (case params ''input_param'' of
        Some (JString inputParam) \<Rightarrow>
          (let optionalParam = exampleAction_optionalParam ops params;
               result = ''Processed '' @ inputParam @ '' with value '' @ fmt_2f ops optionalParam
           in (Some [''result'' \<mapsto> JString result, ''success'' \<mapsto> JBool True], None))
      | _ \<Rightarrow> (Some [''error'' \<mapsto> JString ''input_param must be a string''], None))"

definition template_Execute :: "'f float64 \<Rightarrow> string \<Rightarrow> 'f params \<Rightarrow> 'f go_result" where
  "template_Execute ops action params =
     (if action = ''example_action'' then exampleAction ops params
      else (None, Some (''unknown action: '' @ action)))"

definition template_GetMetadata :: Metadata where
  "template_GetMetadata =
     \<lparr>Name = ''yourplugin'', Version = ''1.0.0'',
      Description = ''Your plugin description here'',
      Author = ''Your Name'', Tags = [''tag1'', ''tag2'']\<rparr>"

definition template_GetActions :: "string \<rightharpoonup> ActionSpec" where
  "template_GetActions =
     [''example_action'' \<mapsto>
        \<lparr>Description = ''Example action that does something'',
         Inputs =
           [''input_param'' \<mapsto>
              \<lparr>Type = ''string'', Required = True, Default = None,
               Description = ''An example input parameter''\<rparr>,
            ''optional_param'' \<mapsto>
              \<lparr>Type = ''number'', Required = False, Default = Some (GoInt 10),
               Description = ''An optional parameter with default''\<rparr>],
         Outputs =
           [''result'' \<mapsto>
              \<lparr>Type = ''string'', Required = False, Default = None,
               Description = ''The action result''\<rparr>,
            ''success'' \<mapsto>
              \<lparr>Type = ''boolean'', Required = False, Default = None,
               Description = ''Whether the action succeeded''\<rparr>]\<rparr>]"

definition template_plugin ::
  "'f float64 \<Rightarrow> (Metadata, string \<rightharpoonup> ActionSpec, 'f, 'f go_result) plugin" where
  "template_plugin ops =
     \<lparr>GetMetadata = template_GetMetadata, GetActions = template_GetActions,
      Execute = template_Execute ops\<rparr>"

definition template_main ::
  "'f float64 \<Rightarrow> (string \<Rightarrow> string + 'f params) \<Rightarrow>
   string list \<Rightarrow> string + string \<Rightarrow> (Metadata, string \<rightharpoonup> ActionSpec, 'f) outcome" where
  "template_main ops Unmarshal =
     std_main ''failed to parse JSON input: '' Unmarshal (template_plugin ops)"

section \<open>The reporting plugin (unnamed/part_004)\<close>

text \<open>
  \<open>strings.Repeat\<close>: it panics on a negative count and on a result longer than the largest
  \<open>int\<close>.
\<close>

definition strings_Repeat :: "string \<Rightarrow> int \<Rightarrow> string go" where
  "strings_Repeat s count =
     (if count < 0 then Panics ''strings: negative Repeat count''
      else if int (length s) * count > 2 ^ 63 - 1 then
        Panics ''strings: Repeat output length overflow''
      else Returns (concat (replicate (nat count) s)))"

text \<open>The name \<open>%T\<close> prints for a decoded JSON value.\<close>

fun go_type_name :: "'f json \<Rightarrow> string" where
  "go_type_name JNull = ''<nil>''"
| "go_type_name (JBool b) = ''bool''"
| "go_type_name (JNumber x) = ''float64''"
| "go_type_name (JString s) = ''string''"
| "go_type_name (JArray xs) = ''[]interface {}''"
| "go_type_name (JObject m) = ''map[string]interface {}''"

definition convertToFloat :: "'f float64 \<Rightarrow> 'f json \<Rightarrow> string + 'f" where
  "convertToFloat ops value =
     (case value of
        JNumber v \<Rightarrow> Inr v
      | JString v \<Rightarrow> ParseFloat ops v
      | _ \<Rightarrow> Inl (''cannot convert '' @ go_type_name value @ '' to float64''))"

text \<open>\<open>m[k]\<close> on a Go map: nil where the key is missing.\<close>

definition map_index :: "'f params \<Rightarrow> string \<Rightarrow> 'f json" where
  "map_index m k = (case m k of None \<Rightarrow> JNull | Some v \<Rightarrow> v)"

text \<open>
  The loop of \<open>generateBarChart\<close> over the sorted keys (lines 508 to 518): a value that
  does not convert is skipped; the bar is \<open>strings.Repeat\<close> of the block character (three
  bytes in UTF-8) with the count \<open>int((val / maxVal) * float64(width))\<close>, and a panic of
  \<open>strings.Repeat\<close> ends the loop. \<open>Sprintf\<close> is
  \<open>fmt.Sprintf("%15s | %s %.2f", label, bar, val)\<close>.
\<close>

fun bar_lines ::
  "'f float64 \<Rightarrow> (string \<Rightarrow> string \<Rightarrow> 'f \<Rightarrow> string) \<Rightarrow> 'f params \<Rightarrow> 'f \<Rightarrow> int \<Rightarrow>
   string list \<Rightarrow> string list go" where
  "bar_lines ops Sprintf data maxVal width [] = Returns []"
| "bar_lines ops Sprintf data maxVal width (label # keys) =
     (case convertToFloat ops (map_index data label) of
        Inl err \<Rightarrow> bar_lines ops Sprintf data maxVal width keys
      | Inr val \<Rightarrow>
          (let barLength =
                 int_of_float64 ops (fmul ops (fquo ops val maxVal) (float64_of_int ops width))
           in case strings_Repeat [CHR 0xE2, CHR 0x96, CHR 0x88] barLength of
                Panics m \<Rightarrow> Panics m
              | Returns bar \<Rightarrow>
                  (case bar_lines ops Sprintf data maxVal width keys of
                     Panics m \<Rightarrow> Panics m
                   | Returns lines \<Rightarrow> Returns (Sprintf label bar val # lines))))"

definition strings_Join :: "string list \<Rightarrow> string \<Rightarrow> string" where
  "strings_Join elems sep =
     (case elems of [] \<Rightarrow> [] | e # es \<Rightarrow> e @ concat (map (\<lambda>x. sep @ x) es))"

text \<open>
  \<open>generateBarChart\<close>. The keys are those of the map, sorted as \<open>sort.Strings\<close> sorts
  them. The first loop ranges over the map in an order Go does not fix; it computes the
  largest convertible value above zero, which no order changes, and runs over the sorted
  keys here. \<open>gt x y\<close> is \<open>x > y\<close> on \<open>float64\<close>.
\<close>

definition generateBarChart ::
  "'f float64 \<Rightarrow> ('f \<Rightarrow> 'f \<Rightarrow> bool) \<Rightarrow> (string \<Rightarrow> string \<Rightarrow> 'f \<Rightarrow> string) \<Rightarrow>
   'f params \<Rightarrow> string \<Rightarrow> int \<Rightarrow> string go" where
  "generateBarChart ops gt Sprintf data title width =
     (case (if title \<noteq> [] then strings_Repeat ''='' (int (length title)) else Returns []) of
        Panics m \<Rightarrow> Panics m
      | Returns underline \<Rightarrow>
          (let lines = (if title \<noteq> [] then [title, underline, []] else [])
           in if data = Map.empty then Returns ''No data provided''
              else
                (let keys = sorted_list_of_set (dom data);
                     found =
                       foldl (\<lambda>maxVal k.
                                case convertToFloat ops (map_index data k) of
                                  Inl err \<Rightarrow> maxVal
                                | Inr val \<Rightarrow> if gt val maxVal then val else maxVal)
                         (float64_of_int ops 0) keys;
                     maxVal = (if is_zero ops found then float64_of_int ops 1 else found)
                 in case bar_lines ops Sprintf data maxVal width keys of
                      Panics m \<Rightarrow> Panics m
                    | Returns bars \<Rightarrow> Returns (strings_Join (lines @ bars) [CHR 0x0A]))))"

text \<open>
  \<open>createChart\<close>. Its \<open>switch\<close> on the chart type calls \<open>generateBarChart\<close> in every case,
  so the type plays no part. \<open>getStringParam\<close> and \<open>getFloatParam\<close> of this file are those
  of the template.
\<close>

definition createChart ::
  "'f float64 \<Rightarrow> ('f \<Rightarrow> 'f \<Rightarrow> bool) \<Rightarrow> (string \<Rightarrow> string \<Rightarrow> 'f \<Rightarrow> string) \<Rightarrow>
   'f params \<Rightarrow> 'f go_result go" where
  "createChart ops gt Sprintf params =
     (case params ''data'' of
        None \<Rightarrow> Returns (Some [''error'' \<mapsto> JString ''data is required''], None)
      | Some dataRaw \<Rightarrow>
          (case dataRaw of
             JObject data \<Rightarrow>
               if data = Map.empty then
                 Returns (Some [''chart'' \<mapsto> JString ''No data provided''], None)
               else
                 (let title = getStringParam params ''title'' [];
                      width = int_of_float64 ops
                                (getFloatParam params ''width'' (float64_of_int ops 60))
                  in case generateBarChart ops gt Sprintf data title width of
                       Panics m \<Rightarrow> Panics m
                     | Returns chart \<Rightarrow> Returns (Some [''chart'' \<mapsto> JString chart], None))
           | _ \<Rightarrow> Returns (Some [''error'' \<mapsto> JString ''data must be an object''], None)))"

text \<open>
  \<open>Execute\<close> of the reporting plugin. \<open>createReport\<close> and \<open>createTable\<close> render templates
  and write files; they are parameters.
\<close>

definition reporting_Execute ::
  "'f float64 \<Rightarrow> ('f \<Rightarrow> 'f \<Rightarrow> bool) \<Rightarrow> (string \<Rightarrow> string \<Rightarrow> 'f \<Rightarrow> string) \<Rightarrow>
   ('f params \<Rightarrow> 'f go_result go) \<Rightarrow> ('f params \<Rightarrow> 'f go_result go) \<Rightarrow>
   string \<Rightarrow> 'f params \<Rightarrow> 'f go_result go" where
  "reporting_Execute ops gt Sprintf createReport createTable action params =
     (if action = ''create_report'' then createReport params
      else if action = ''create_table'' then createTable params
      else if action = ''create_chart'' then createChart ops gt Sprintf params
      else Returns (None, Some (''unknown action: '' @ action)))"

definition reporting_GetMetadata :: Metadata where
  "reporting_GetMetadata =
     \<lparr>Name = ''reporting'', Version = ''1.0.0'',
      Description =
        ''Generate formatted reports with tables, charts, and multiple output formats'',
      Author = ''Corynth Team'',
      Tags = [''reporting'', ''pdf'', ''markdown'', ''tables'', ''documentation'', ''output'']\<rparr>"

definition reporting_GetActions :: "string \<rightharpoonup> ActionSpec" where
  "reporting_GetActions =
     [''create_report'' \<mapsto>
        \<lparr>Description = ''Create formatted report'',
         Inputs =
           [''title'' \<mapsto>
              \<lparr>Type = ''string'', Required = True, Default = None,
               Description = ''Report title''\<rparr>,
            ''content'' \<mapsto>
              \<lparr>Type = ''string'', Required = True, Default = None,
               Description = ''Report content''\<rparr>,
            ''format'' \<mapsto>
              \<lparr>Type = ''string'', Required = False, Default = Some (GoString ''markdown''),
               Description = ''Output format: markdown, html, text''\<rparr>,
            ''output_path'' \<mapsto>
              \<lparr>Type = ''string'', Required = False, Default = None,
               Description = ''Output file path''\<rparr>,
            ''metadata'' \<mapsto>
              \<lparr>Type = ''object'', Required = False, Default = None,
               Description = ''Report metadata''\<rparr>],
         Outputs =
           [''report'' \<mapsto>
              \<lparr>Type = ''string'', Required = False, Default = None,
               Description = ''Generated report''\<rparr>,
            ''file_path'' \<mapsto>
              \<lparr>Type = ''string'', Required = False, Default = None,
               Description = ''Output file path''\<rparr>]\<rparr>,
      ''create_table'' \<mapsto>
        \<lparr>Description = ''Create formatted table'',
         Inputs =
           [''data'' \<mapsto>
              \<lparr>Type = ''array'', Required = True, Default = None,
               Description = ''Table data''\<rparr>,
            ''headers'' \<mapsto>
              \<lparr>Type = ''array'', Required = False, Default = None,
               Description = ''Column headers''\<rparr>,
            ''format'' \<mapsto>
              \<lparr>Type = ''string'', Required = False, Default = Some (GoString ''markdown''),
               Description = ''Table format''\<rparr>,
            ''title'' \<mapsto>
              \<lparr>Type = ''string'', Required = False, Default = None,
               Description = ''Table title''\<rparr>],
         Outputs =
           [''table'' \<mapsto>
              \<lparr>Type = ''string'', Required = False, Default = None,
               Description = ''Formatted table''\<rparr>]\<rparr>,
      ''create_chart'' \<mapsto>
        \<lparr>Description = ''Create ASCII chart'',
         Inputs =
           [''data'' \<mapsto>
              \<lparr>Type = ''object'', Required = True, Default = None,
               Description = ''Chart data''\<rparr>,
            ''type'' \<mapsto>
              \<lparr>Type = ''string'', Required = False, Default = Some (GoString ''bar''),
               Description = ''Chart type: bar, line''\<rparr>,
            ''title'' \<mapsto>
              \<lparr>Type = ''string'', Required = False, Default = None,
               Description = ''Chart title''\<rparr>,
            ''width'' \<mapsto>
              \<lparr>Type = ''number'', Required = False, Default = Some (GoInt 60),
               Description = ''Chart width''\<rparr>],
         Outputs =
           [''chart'' \<mapsto>
              \<lparr>Type = ''string'', Required = False, Default = None,
               Description = ''ASCII chart''\<rparr>]\<rparr>]"

text \<open>The reporting plugin has the \<open>main\<close> of the calculator.\<close>

definition reporting_plugin ::
  "(string \<Rightarrow> 'f params \<Rightarrow> 'f go_result go) \<Rightarrow>
   (Metadata, string \<rightharpoonup> ActionSpec, 'f, 'f go_result) plugin" where
  "reporting_plugin Exec =
     \<lparr>GetMetadata = reporting_GetMetadata, GetActions = reporting_GetActions,
      Execute = (\<lambda>action params. returned (Exec action params))\<rparr>"

definition reporting_process ::
  "((Metadata, string \<rightharpoonup> ActionSpec, 'f) reply \<Rightarrow> string option) \<Rightarrow>
   (string \<Rightarrow> 'f params \<Rightarrow> 'f go_result go) \<Rightarrow> (string \<Rightarrow> string + 'f params) \<Rightarrow>
   string list \<Rightarrow> string + string \<Rightarrow> process" where
  "reporting_process Encode Exec Unmarshal Args Stdin =
     process_of Encode (\<lambda>action params. panicked (Exec action params))
       (std_main ''failed to parse JSON: '' Unmarshal (reporting_plugin Exec) Args Stdin)"

section \<open>The http plugin (official/http/plugin.go)\<close>

text \<open>
  The HTTP exchange itself is the work of \<open>net/http\<close> and of the server: \<open>do_get\<close> stands
  for lines 117 to 165 of \<open>makeGetRequest\<close> and \<open>do_post\<close> for lines 179 to 246 of
  \<open>makePostRequest\<close>, given the client's timeout in nanoseconds, the URL and the
  parameter map.
\<close>

record 'f http_client =
  do_get :: "int \<Rightarrow> string \<Rightarrow> 'f params \<Rightarrow> 'f go_result"
  do_post :: "int \<Rightarrow> string \<Rightarrow> 'f params \<Rightarrow> 'f go_result"

text \<open>
  \<open>p.client.Timeout\<close> after the timeout block: 30 seconds from \<open>NewHTTPPlugin\<close>, or
  \<open>time.Duration(timeout) * time.Second\<close>, a product of 64-bit integers that wraps.
\<close>

definition client_Timeout :: "'f float64 \<Rightarrow> 'f params \<Rightarrow> int" where
  "client_Timeout ops params =
     (case params ''timeout'' of
        Some (JNumber timeout) \<Rightarrow>
          sint (word_of_int (int_of_float64 ops timeout * 1000000000) :: 64 word)
      | _ \<Rightarrow> 30 * 1000000000)"

definition makeGetRequest :: "'f float64 \<Rightarrow> 'f http_client \<Rightarrow> 'f params \<Rightarrow> 'f go_result" where
  "makeGetRequest ops client params =
     (case params ''url'' of
        Some (JString url) \<Rightarrow>
          if url = [] then (Some [''error'' \<mapsto> JString ''url is required''], None)
          else do_get client (client_Timeout ops params) url params
      | _ \<Rightarrow> (Some [''error'' \<mapsto> JString ''url is required''], None))"

definition makePostRequest :: "'f float64 \<Rightarrow> 'f http_client \<Rightarrow> 'f params \<Rightarrow> 'f go_result" where
  "makePostRequest ops client params =
     (case params ''url'' of
        Some (JString url) \<Rightarrow>
          if url = [] then (Some [''error'' \<mapsto> JString ''url is required''], None)
          else do_post client (client_Timeout ops params) url params
      | _ \<Rightarrow> (Some [''error'' \<mapsto> JString ''url is required''], None))"

definition http_Execute ::
  "'f float64 \<Rightarrow> 'f http_client \<Rightarrow> string \<Rightarrow> 'f params \<Rightarrow> 'f go_result" where
  "http_Execute ops client action params =
     (if action = ''get'' then makeGetRequest ops client params
      else if action = ''post'' then makePostRequest ops client params
      else (None, Some (''unknown action: '' @ action)))"

definition http_GetMetadata :: Metadata where
  "http_GetMetadata =
     \<lparr>Name = ''http'', Version = ''1.0.0'',
      Description = ''HTTP client for REST API calls and web requests'',
      Author = ''Corynth Team'', Tags = [''http'', ''web'', ''api'', ''rest'']\<rparr>"

definition http_Outputs :: "string \<rightharpoonup> IOSpec" where
  "http_Outputs =
     [''status_code'' \<mapsto>
        \<lparr>Type = ''number'', Required = False, Default = None,
         Description = ''HTTP status code''\<rparr>,
      ''headers'' \<mapsto>
        \<lparr>Type = ''object'', Required = False, Default = None,
         Description = ''Response headers''\<rparr>,
      ''content'' \<mapsto>
        \<lparr>Type = ''string'', Required = False, Default = None,
         Description = ''Response body''\<rparr>,
      ''json'' \<mapsto>
        \<lparr>Type = ''object'', Required = False, Default = None,
         Description = ''Parsed JSON response (if applicable)''\<rparr>]"

definition http_GetActions :: "string \<rightharpoonup> ActionSpec" where
  "http_GetActions =
     [''get'' \<mapsto>
        \<lparr>Description = ''Make HTTP GET requests with headers'',
         Inputs =
           [''url'' \<mapsto>
              \<lparr>Type = ''string'', Required = True, Default = None,
               Description = ''Request URL''\<rparr>,
            ''headers'' \<mapsto>
              \<lparr>Type = ''object'', Required = False, Default = None,
               Description = ''HTTP headers''\<rparr>,
            ''timeout'' \<mapsto>
              \<lparr>Type = ''number'', Required = False, Default = Some (GoInt 30),
               Description = ''Request timeout in seconds''\<rparr>,
            ''auth'' \<mapsto>
              \<lparr>Type = ''object'', Required = False, Default = None,
               Description = ''Basic auth with username/password''\<rparr>],
         Outputs = http_Outputs\<rparr>,
      ''post'' \<mapsto>
        \<lparr>Description = ''Make HTTP POST requests with JSON data'',
         Inputs =
           [''url'' \<mapsto>
              \<lparr>Type = ''string'', Required = True, Default = None,
               Description = ''Request URL''\<rparr>,
            ''headers'' \<mapsto>
              \<lparr>Type = ''object'', Required = False, Default = None,
               Description = ''HTTP headers''\<rparr>,
            ''body'' \<mapsto>
              \<lparr>Type = ''string'', Required = False, Default = None,
               Description = ''Request body as string''\<rparr>,
            ''json'' \<mapsto>
              \<lparr>Type = ''object'', Required = False, Default = None,
               Description = ''Request body as JSON''\<rparr>,
            ''timeout'' \<mapsto>
              \<lparr>Type = ''number'', Required = False, Default = Some (GoInt 30),
               Description = ''Request timeout in seconds''\<rparr>,
            ''auth'' \<mapsto>
              \<lparr>Type = ''object'', Required = False, Default = None,
               Description = ''Basic auth with username/password''\<rparr>,
            ''content_type'' \<mapsto>
              \<lparr>Type = ''string'', Required = False,
               Default = Some (GoString ''application/json''),
               Description = ''Content-Type header''\<rparr>],
         Outputs = http_Outputs\<rparr>]"

definition http_plugin ::
  "'f float64 \<Rightarrow> 'f http_client \<Rightarrow>
   (Metadata, string \<rightharpoonup> ActionSpec, 'f, 'f go_result) plugin" where
  "http_plugin ops client =
     \<lparr>GetMetadata = http_GetMetadata, GetActions = http_GetActions,
      Execute = http_Execute ops client\<rparr>"

definition http_main ::
  "'f float64 \<Rightarrow> 'f http_client \<Rightarrow> (string \<Rightarrow> string + 'f params) \<Rightarrow>
   string list \<Rightarrow> string + string \<Rightarrow> (Metadata, string \<rightharpoonup> ActionSpec, 'f) outcome" where
  "http_main ops client Unmarshal =
     std_main ''failed to parse JSON: '' Unmarshal (http_plugin ops client)"

section \<open>The slack plugin (official/slack/plugin.go)\<close>

text \<open>
  \<open>Execute\<close> returns a map alone. \<open>sendMessage\<close> and \<open>sendWebhook\<close> talk to the Slack API
  and are parameters.
\<close>

definition slack_Execute ::
  "('f params \<Rightarrow> 'f params option) \<Rightarrow> ('f params \<Rightarrow> 'f params option) \<Rightarrow>
   string \<Rightarrow> 'f params \<Rightarrow> 'f params option" where
  "slack_Execute sendMessage sendWebhook action params =
     (if action = ''message'' then sendMessage params
      else if action = ''webhook'' then sendWebhook params
      else Some [''error'' \<mapsto> JString (''Unknown action: '' @ action)])"

text \<open>
  The inputs the \<open>message\<close> action declares in \<open>GetActions\<close>. The plugin's \<open>InputSpec\<close> has
  the fields of \<open>IOSpec\<close> but \<open>Default\<close>: no input of it declares a default.
\<close>

definition slack_message_Inputs :: "string \<rightharpoonup> IOSpec" where
  "slack_message_Inputs =
     [''channel'' \<mapsto>
        \<lparr>Type = ''string'', Required = True, Default = None,
         Description = ''Channel name or ID''\<rparr>,
      ''text'' \<mapsto>
        \<lparr>Type = ''string'', Required = True, Default = None,
         Description = ''Message text''\<rparr>,
      ''username'' \<mapsto>
        \<lparr>Type = ''string'', Required = False, Default = None,
         Description = ''Bot username''\<rparr>,
      ''icon_emoji'' \<mapsto>
        \<lparr>Type = ''string'', Required = False, Default = None,
         Description = ''Bot emoji icon''\<rparr>]"

text \<open>
  The request data the method \<open>sendMessage\<close> builds from the parameters (lines 153 to
  171).
\<close>

definition slack_sendMessage_data :: "'f params \<Rightarrow> 'f params" where
  "slack_sendMessage_data params =
     (let channel = (case params ''channel'' of Some (JString s) \<Rightarrow> s | _ \<Rightarrow> []);
          text = (case params ''text'' of Some (JString s) \<Rightarrow> s | _ \<Rightarrow> []);
          username = (case params ''username'' of Some (JString s) \<Rightarrow> s | _ \<Rightarrow> ''Corynth Bot'');
          iconEmoji = (case params ''icon_emoji'' of Some (JString s) \<Rightarrow> s | _ \<Rightarrow> '':robot_face:'')
      in [''channel'' \<mapsto> JString channel, ''text'' \<mapsto> JString text,
          ''username'' \<mapsto> JString username, ''icon_emoji'' \<mapsto> JString iconEmoji])"

text \<open>
  The method \<open>sendMessage\<close>: \<open>token\<close> is the plugin's bot token, from \<open>SLACK_BOT_TOKEN\<close>;
  \<open>post\<close> stands for lines 173 to 222, which send the request data to the Slack API and
  render its answer.
\<close>

definition slack_sendMessage ::
  "string \<Rightarrow> ('f params \<Rightarrow> 'f params option) \<Rightarrow> 'f params \<Rightarrow> 'f params option" where
  "slack_sendMessage token post params =
     (if token = [] then Some [''error'' \<mapsto> JString ''SLACK_BOT_TOKEN not configured'']
      else post (slack_sendMessage_data params))"

definition slack_GetMetadata :: Metadata where
  "slack_GetMetadata =
     \<lparr>Name = ''slack'', Version = ''1.0.0'',
      Description = ''Slack workspace messaging and notifications'',
      Author = ''Corynth Team'', Tags = [''slack'', ''messaging'', ''notifications'']\<rparr>"

text \<open>
  The plugin as \<open>main\<close> uses it; \<open>actions\<close> is the table \<open>GetActions\<close> returns, which
  \<open>main\<close> only passes on to the encoder.
\<close>

definition slack_plugin ::
  "('f params \<Rightarrow> 'f params option) \<Rightarrow> ('f params \<Rightarrow> 'f params option) \<Rightarrow> 'a \<Rightarrow>
   (Metadata, 'a, 'f, 'f params option) plugin" where
  "slack_plugin sendMessage sendWebhook actions =
     \<lparr>GetMetadata = slack_GetMetadata, GetActions = actions,
      Execute = slack_Execute sendMessage sendWebhook\<rparr>"

text \<open>
  \<open>main\<close>: \<open>Decode\<close> is \<open>json.NewDecoder(os.Stdin).Decode\<close> on the bytes of standard input,
  giving the error text (\<open>EOF\<close> on no bytes) or the map; a stream that cannot be read
  fails it as well. Any error leaves the empty map.
\<close>

definition slack_main ::
  "(string \<Rightarrow> string + 'f params) \<Rightarrow> ('m, 'a, 'f, 'f params option) plugin \<Rightarrow>
   string list \<Rightarrow> string + string \<Rightarrow> ('m, 'a, 'f) outcome" where
  "slack_main Decode plugin Args Stdin =
     (if length Args < 2 then action_required
      else
        let action = Args ! 1
        in if action = ''metadata'' then
             \<lparr>stdout = [OutMetadata (GetMetadata plugin)], exit_code = 0,
              stdin_read = False, executed = []\<rparr>
           else if action = ''actions'' then
             \<lparr>stdout = [OutActions (GetActions plugin)], exit_code = 0,
              stdin_read = False, executed = []\<rparr>
           else
             (let params =
                    (case Stdin of
                       Inl err \<Rightarrow> Map.empty
                     | Inr bytes \<Rightarrow>
                         (case Decode bytes of Inl err \<Rightarrow> Map.empty | Inr decoded \<Rightarrow> decoded))
              in \<lparr>stdout = [OutResult (Execute plugin action params)], exit_code = 0,
                  stdin_read = True, executed = [(action, params)]\<rparr>))"

section \<open>The llm plugin (official/llm/plugin.go)\<close>

definition llm_Execute ::
  "('f params \<Rightarrow> 'f params option) \<Rightarrow> ('f params \<Rightarrow> 'f params option) \<Rightarrow>
   ('f params \<Rightarrow> 'f params option) \<Rightarrow> string \<Rightarrow> 'f params \<Rightarrow> 'f params option" where
  "llm_Execute openaiGenerate openaiChat ollamaGenerate action params =
     (if action = ''generate'' then openaiGenerate params
      else if action = ''chat'' then openaiChat params
      else if action = ''ollama'' then ollamaGenerate params
      else Some [''error'' \<mapsto> JString (''Unknown action: '' @ action)])"

definition llm_GetMetadata :: Metadata where
  "llm_GetMetadata =
     \<lparr>Name = ''llm'', Version = ''1.0.0'',
      Description = ''Large Language Model integration (OpenAI, Ollama)'',
      Author = ''Corynth Team'', Tags = [''llm'', ''ai'', ''gpt'', ''openai'', ''ollama'']\<rparr>"

definition llm_plugin ::
  "('f params \<Rightarrow> 'f params option) \<Rightarrow> ('f params \<Rightarrow> 'f params option) \<Rightarrow>
   ('f params \<Rightarrow> 'f params option) \<Rightarrow> 'a \<Rightarrow>
   (Metadata, 'a, 'f, 'f params option) plugin" where
  "llm_plugin openaiGenerate openaiChat ollamaGenerate actions =
     \<lparr>GetMetadata = llm_GetMetadata, GetActions = actions,
      Execute = llm_Execute openaiGenerate openaiChat ollamaGenerate\<rparr>"

text \<open>
  \<open>main\<close> reads standard input before it looks at the mode, and answers bytes that do not
  decode with an error envelope of its own. \<open>TrimSpace\<close> is \<open>bytes.TrimSpace\<close>.
\<close>

definition llm_main ::
  "(string \<Rightarrow> string) \<Rightarrow> (string \<Rightarrow> string + 'f params) \<Rightarrow>
   ('m, 'a, 'f, 'f params option) plugin \<Rightarrow>
   string list \<Rightarrow> string + string \<Rightarrow> ('m, 'a, 'f) outcome" where
  "llm_main TrimSpace Unmarshal plugin Args Stdin =
     (if length Args < 2 then action_required
      else
        let action = Args ! 1;
            decoded =
              (case Stdin of
                 Inl err \<Rightarrow> Inr Map.empty
               | Inr input \<Rightarrow>
                   if length input > 0 then
                     (let trimmed = TrimSpace input
                      in if length trimmed > 0 then Unmarshal trimmed else Inr Map.empty)
                   else Inr Map.empty)
        in case decoded of
             Inl err \<Rightarrow>
               \<lparr>stdout = [error_envelope (''Invalid JSON input: '' @ err)], exit_code = 0,
                stdin_read = True, executed = []\<rparr>
           | Inr params \<Rightarrow>
               if action = ''metadata'' then
                 \<lparr>stdout = [OutMetadata (GetMetadata plugin)], exit_code = 0,
                  stdin_read = True, executed = []\<rparr>
               else if action = ''actions'' then
                 \<lparr>stdout = [OutActions (GetActions plugin)], exit_code = 0,
                  stdin_read = True, executed = []\<rparr>
               else
                 \<lparr>stdout = [OutResult (Execute plugin action params)], exit_code = 0,
                  stdin_read = True, executed = [(action, params)]\<rparr>)"

section \<open>The terraform plugin (official/terraform/plugin.go)\<close>

text \<open>
  \<open>Execute\<close>: the eight \<open>terraform*\<close> methods run the \<open>terraform\<close> binary in the
  working directory and are the parameter \<open>handler\<close>, given the action name, the working
  directory and the parameter map; \<open>Getwd\<close> is what \<open>os.Getwd()\<close> returns.
\<close>

definition terraform_Execute ::
  "string \<Rightarrow> (string \<Rightarrow> string \<Rightarrow> 'f params \<Rightarrow> 'f go_result) \<Rightarrow>
   string \<Rightarrow> 'f params \<Rightarrow> 'f go_result" where
  "terraform_Execute Getwd handler action params =
     (let WorkingDir =
            (case params ''working_dir'' of
               Some (JString wd) \<Rightarrow> if wd \<noteq> [] then wd else Getwd
             | _ \<Rightarrow> Getwd)
      in if action \<in> set [''init'', ''plan'', ''apply'', ''destroy'', ''validate'',
                           ''output'', ''workspace'', ''import'']
         then handler action WorkingDir params
         else (Some [''error'' \<mapsto> JString (''Unknown action: '' @ action)], None))"

definition terraform_GetMetadata :: Metadata where
  "terraform_GetMetadata =
     \<lparr>Name = ''terraform'', Version = ''1.0.0'',
      Description = ''Terraform Infrastructure as Code operations'',
      Author = ''Corynth Team'',
      Tags = [''terraform'', ''iac'', ''infrastructure'', ''cloud'', ''provisioning'']\<rparr>"

definition terraform_plugin ::
  "string \<Rightarrow> (string \<Rightarrow> string \<Rightarrow> 'f params \<Rightarrow> 'f go_result) \<Rightarrow> 'a \<Rightarrow>
   (Metadata, 'a, 'f, 'f go_result) plugin" where
  "terraform_plugin Getwd handler actions =
     \<lparr>GetMetadata = terraform_GetMetadata, GetActions = actions,
      Execute = terraform_Execute Getwd handler\<rparr>"

text \<open>The map \<open>main\<close> builds from the metadata in \<open>metadata\<close> mode.\<close>

definition metadata_map :: "Metadata \<Rightarrow> 'f params" where
  "metadata_map md =
     [''name'' \<mapsto> JString (Name md),
      ''version'' \<mapsto> JString (Version md),
      ''description'' \<mapsto> JString (Metadata.Description md),
      ''author'' \<mapsto> JString (Author md),
      ''tags'' \<mapsto> JArray (map JString (Tags md))]"

text \<open>
  \<open>main\<close> reads standard input before it looks at the mode and drops the error of
  \<open>json.Unmarshal\<close>. In \<open>actions\<close> mode it copies the action table into a fresh map,
  entry by entry, which encodes as the table does.
\<close>

definition terraform_main ::
  "(string \<Rightarrow> string + 'f params) \<Rightarrow> (Metadata, 'a, 'f, 'f go_result) plugin \<Rightarrow>
   string list \<Rightarrow> string + string \<Rightarrow> (Metadata, 'a, 'f) outcome" where
  "terraform_main Unmarshal plugin Args Stdin =
     (if length Args < 2 then action_required
      else
        let action = Args ! 1;
            params =
              (case Stdin of
                 Inl err \<Rightarrow> Map.empty
               | Inr input \<Rightarrow>
                   if length input > 0 then
                     (case Unmarshal input of Inl err \<Rightarrow> Map.empty | Inr decoded \<Rightarrow> decoded)
                   else Map.empty)
        in if action = ''metadata'' then
             \<lparr>stdout = [OutResult (Some (metadata_map (GetMetadata plugin)))], exit_code = 0,
              stdin_read = True, executed = []\<rparr>
           else if action = ''actions'' then
             \<lparr>stdout = [OutActions (GetActions plugin)], exit_code = 0,
              stdin_read = True, executed = []\<rparr>
           else run_Execute plugin action params)"

section \<open>Running the model\<close>

subsection \<open>Exact arithmetic\<close>

text \<open>
  An instance of the \<open>float64\<close> operations on the rationals, with exact arithmetic. It
  agrees with \<open>float64\<close> where every number involved is one \<open>float64\<close> represents exactly
  and is not too large (integers up to \<open>2^53\<close>, quotients of them by powers of two); it
  serves to run the definitions on such numbers. \<open>exact_ParseFloat\<close> reads decimal
  literals without exponent only.
\<close>

definition trunc_rat :: "rat \<Rightarrow> int" where
  "trunc_rat x = (if x \<ge> 0 then \<lfloor>x\<rfloor> else \<lceil>x\<rceil>)"

definition round_half_away :: "rat \<Rightarrow> int" where
  "round_half_away x = (if x \<ge> 0 then \<lfloor>x + 1 / 2\<rfloor> else \<lceil>x - 1 / 2\<rceil>)"

definition round_half_even :: "rat \<Rightarrow> int" where
  "round_half_even x =
     (let f = \<lfloor>x\<rfloor>; d = x - of_int f
      in if d < 1 / 2 then f else if d > 1 / 2 then f + 1 else if even f then f else f + 1)"

definition digit_char :: "nat \<Rightarrow> char" where
  "digit_char d = char_of (48 + d)"

fun string_of_nat :: "nat \<Rightarrow> string" where
  "string_of_nat n =
     (if n < 10 then [digit_char n] else string_of_nat (n div 10) @ [digit_char (n mod 10)])"

declare string_of_nat.simps [simp del]

definition exact_fmt_2f :: "rat \<Rightarrow> string" where
  "exact_fmt_2f x =
     (let n = nat (round_half_even (\<bar>x\<bar> * 100))
      in (if x < 0 then ''-'' else []) @ string_of_nat (n div 100) @ ''.'' @
         [digit_char (n mod 100 div 10), digit_char (n mod 10)])"

definition exact_ParseFloat :: "string \<Rightarrow> string + rat" where
  "exact_ParseFloat s =
     (let ip = takeWhile is_digit s; rest = dropWhile is_digit s;
          fp = (if rest = [] then [] else tl rest);
          val = (\<lambda>ds. foldl (\<lambda>n c. n * 10 + digit_val c) 0 ds)
      in if (rest = [] \<or> hd rest = CHR ''.'') \<and> list_all is_digit fp \<and> (ip \<noteq> [] \<or> fp \<noteq> [])
         then Inr (of_nat (val ip) + of_nat (val fp) / 10 ^ length fp)
         else Inl (''strconv.ParseFloat: parsing '' @ [CHR 0x22] @ s @ [CHR 0x22] @
                   '': invalid syntax''))"

definition exact :: "rat float64" where
  "exact =
     \<lparr>fadd = (+), fsub = (-), fmul = (*), fquo = (/), fneg = uminus,
      is_zero = (\<lambda>x. x = 0),
      float64_of_int = of_int,
      int_of_float64 = trunc_rat,
      math_Mod = (\<lambda>x y. x - y * of_int (trunc_rat (x / y))),
      math_Pow = (\<lambda>x y. if y \<ge> 0 then x ^ nat \<lfloor>y\<rfloor> else 1 / x ^ nat \<lfloor>- y\<rfloor>),
      math_Round = (\<lambda>x. of_int (round_half_away x)),
      math_Pi = 884279719003555 / 281474976710656,
      math_E = 6121026514868073 / 2251799813685248,
      ParseFloat = exact_ParseFloat,
      fmt_2f = exact_fmt_2f\<rparr>"

subsection \<open>A parser for arithmetic\<close>

text \<open>
  A parser for the arithmetic fragment of Go expressions: decimal literals, identifiers,
  \<open>+ - * / %\<close>, unary \<open>+\<close> and \<open>-\<close>, parentheses. It builds binary expressions the way
  \<open>go/parser\<close> does, by precedence climbing with precedence 5 for \<open>* / %\<close> and 4 for
  \<open>+ -\<close>, left to right. It serves to run the calculator on concrete strings; it rejects
  what lies outside the fragment, with error texts of its own. The fuel bounds the depth
  of the recursion and is chosen beyond what the input can use.
\<close>

datatype lexeme = LNum token string | LIdent string | LOp token | LParen | RParen

definition is_letter :: "char \<Rightarrow> bool" where
  "is_letter c =
     ((65 \<le> (of_char c :: nat) \<and> (of_char c :: nat) \<le> 90) \<or>
      (97 \<le> (of_char c :: nat) \<and> (of_char c :: nat) \<le> 122) \<or> c = CHR ''_'')"

definition is_space :: "char \<Rightarrow> bool" where
  "is_space c = (c = CHR '' '' \<or> c = CHR 0x09 \<or> c = CHR 0x0A \<or> c = CHR 0x0D)"

fun scan :: "nat \<Rightarrow> string \<Rightarrow> lexeme list option" where
  "scan 0 s = None"
| "scan (Suc fuel) [] = Some []"
| "scan (Suc fuel) (c # cs) =
     (if is_space c then scan fuel cs
      else if is_digit c then
        (let ip = takeWhile is_digit (c # cs); rest = dropWhile is_digit (c # cs)
         in if rest \<noteq> [] \<and> hd rest = CHR ''.'' then
              map_option (Cons (LNum FLOAT (ip @ ''.'' @ takeWhile is_digit (tl rest))))
                (scan fuel (dropWhile is_digit (tl rest)))
            else map_option (Cons (LNum INT_kind ip)) (scan fuel rest))
      else if is_letter c then
        map_option (Cons (LIdent (takeWhile (\<lambda>d. is_letter d \<or> is_digit d) (c # cs))))
          (scan fuel (dropWhile (\<lambda>d. is_letter d \<or> is_digit d) (c # cs)))
      else if c = CHR ''+'' then map_option (Cons (LOp ADD)) (scan fuel cs)
      else if c = CHR ''-'' then map_option (Cons (LOp SUB)) (scan fuel cs)
      else if c = CHR ''*'' then map_option (Cons (LOp MUL)) (scan fuel cs)
      else if c = CHR ''/'' then map_option (Cons (LOp QUO)) (scan fuel cs)
      else if c = CHR ''%'' then map_option (Cons (LOp REM)) (scan fuel cs)
      else if c = CHR ''('' then map_option (Cons LParen) (scan fuel cs)
      else if c = CHR '')'' then map_option (Cons RParen) (scan fuel cs)
      else None)"

definition precedence :: "token \<Rightarrow> nat" where
  "precedence op =
     (if op = MUL \<or> op = QUO \<or> op = REM then 5 else if op = ADD \<or> op = SUB then 4 else 0)"

fun parseBinaryExpr :: "nat \<Rightarrow> nat \<Rightarrow> lexeme list \<Rightarrow> (node \<times> lexeme list) option"
  and parseBinaryLoop :: "nat \<Rightarrow> nat \<Rightarrow> node \<Rightarrow> lexeme list \<Rightarrow> (node \<times> lexeme list) option"
  and parseUnaryExpr :: "nat \<Rightarrow> lexeme list \<Rightarrow> (node \<times> lexeme list) option"
where
  "parseBinaryExpr 0 prec1 ts = None"
| "parseBinaryExpr (Suc fuel) prec1 ts =
     (case parseUnaryExpr fuel ts of
        None \<Rightarrow> None
      | Some (x, rest) \<Rightarrow> parseBinaryLoop fuel prec1 x rest)"
| "parseBinaryLoop 0 prec1 x ts = None"
| "parseBinaryLoop (Suc fuel) prec1 x ts =
     (case ts of
        LOp op # rest \<Rightarrow>
          if precedence op < prec1 then Some (x, ts)
          else
            (case parseBinaryExpr fuel (precedence op + 1) rest of
               None \<Rightarrow> None
             | Some (y, rest') \<Rightarrow> parseBinaryLoop fuel prec1 (BinaryExpr x op y) rest')
      | _ \<Rightarrow> Some (x, ts))"
| "parseUnaryExpr 0 ts = None"
| "parseUnaryExpr (Suc fuel) ts =
     (case ts of
        LOp op # rest \<Rightarrow>
          if op = ADD \<or> op = SUB then
            (case parseUnaryExpr fuel rest of
               None \<Rightarrow> None
             | Some (x, rest') \<Rightarrow> Some (UnaryExpr op x, rest'))
          else None
      | LNum kind val # rest \<Rightarrow> Some (BasicLit kind val, rest)
      | LIdent name # rest \<Rightarrow> Some (Ident name, rest)
      | LParen # rest \<Rightarrow>
          (case parseBinaryExpr fuel 1 rest of
             Some (x, RParen # rest') \<Rightarrow> Some (ParenExpr x, rest')
           | _ \<Rightarrow> None)
      | _ \<Rightarrow> None)"

definition arith_ParseExpr :: "string \<Rightarrow> string + node" where
  "arith_ParseExpr s =
     (case scan (Suc (length s)) s of
        None \<Rightarrow> Inl ''illegal character''
      | Some ts \<Rightarrow>
          (case parseBinaryExpr (3 * length ts + 3) 1 ts of
             Some (x, []) \<Rightarrow> Inr x
           | _ \<Rightarrow> Inl ''expected operand''))"

text \<open>The tree of \<open>2 + 2 * 3\<close>, the product below the sum.\<close>

definition tree_A :: node where
  "tree_A = BinaryExpr (BasicLit INT_kind ''2'') ADD
              (BinaryExpr (BasicLit INT_kind ''2'') MUL (BasicLit INT_kind ''3''))"

text \<open>The tree of \<open>1 / (2 - 2)\<close>.\<close>

definition tree_div0 :: node where
  "tree_div0 = BinaryExpr (BasicLit INT_kind ''1'') QUO
                 (ParenExpr (BinaryExpr (BasicLit INT_kind ''2'') SUB (BasicLit INT_kind ''2'')))"

subsection \<open>Plugins without their collaborators\<close>

text \<open>
  The slack plugin of a process without \<open>SLACK_BOT_TOKEN\<close> and \<open>SLACK_WEBHOOK_URL\<close> in
  its environment: \<open>sendMessage\<close> and \<open>sendWebhook\<close> return at their first check. The
  action table is left out.
\<close>

definition slack_unconfigured :: "(Metadata, unit, 'f, 'f params option) plugin" where
  "slack_unconfigured =
     slack_plugin (\<lambda>params. Some [''error'' \<mapsto> JString ''SLACK_BOT_TOKEN not configured''])
       (\<lambda>params. Some [''error'' \<mapsto> JString ''SLACK_WEBHOOK_URL not configured'']) ()"

text \<open>
  The llm plugin of a process without \<open>OPENAI_API_KEY\<close> in its environment and without
  network. The action table is left out.
\<close>

definition llm_unconfigured :: "(Metadata, unit, 'f, 'f params option) plugin" where
  "llm_unconfigured =
     llm_plugin (\<lambda>params. Some [''error'' \<mapsto> JString ''OPENAI_API_KEY not configured''])
       (\<lambda>params. Some [''error'' \<mapsto> JString ''OPENAI_API_KEY not configured''])
       (\<lambda>params. case params ''prompt'' of
                    Some (JString prompt) \<Rightarrow> Some [''error'' \<mapsto> JString ''Request failed'']
                  | _ \<Rightarrow> Some [''error'' \<mapsto> JString ''prompt is required'']) ()"

text \<open>
  The terraform plugin of a process in the directory \<open>/\<close> whose handlers all fail. The
  action table is left out.
\<close>

definition terraform_failing :: "(Metadata, unit, 'f, 'f go_result) plugin" where
  "terraform_failing =
     terraform_plugin ''/''
       (\<lambda>action dir params. (Some [''success'' \<mapsto> JBool False], None)) ()"

text \<open>A client without network, for running the model: every request fails.\<close>

definition offline_client :: "'f http_client" where
  "offline_client =
     \<lparr>do_get = (\<lambda>timeout url params.
                 (Some [''error'' \<mapsto> JString ''request failed: no network''], None)),
      do_post = (\<lambda>timeout url params.
                 (Some [''error'' \<mapsto> JString ''request failed: no network''], None))\<rparr>"

text \<open>
  The reporting plugin with exact arithmetic, whose \<open>create_report\<close> and \<open>create_table\<close>
  are not run, and an encoder that accepts every value.
\<close>

definition reporting_exact :: "string \<Rightarrow> rat params \<Rightarrow> rat go_result go" where
  "reporting_exact =
     reporting_Execute exact (\<lambda>x y. y < x)
       (\<lambda>label bar val.
          replicate (15 - length label) CHR '' '' @ label @ '' | '' @ bar @ '' '' @ exact_fmt_2f val)
       (\<lambda>params. Returns (Some [''error'' \<mapsto> JString ''title is required''], None))
       (\<lambda>params. Returns (Some [''error'' \<mapsto> JString ''data is required''], None))"

definition encode_any :: "('m, 'a, 'f) reply \<Rightarrow> string option" where
  "encode_any v = Some ''{}''"

section \<open>Properties\<close>

subsection \<open>Unknown actions\<close>

lemma std_main_execute:
  assumes "execute_mode Args" and "Stdin = Inr bytes"
    and "bytes = [] \<and> params = Map.empty \<or> bytes \<noteq> [] \<and> Unmarshal bytes = Inr params"
  shows "std_main parse_msg Unmarshal plugin Args Stdin = run_Execute plugin (Args ! 1) params"
  using assms by (auto simp: std_main_def execute_mode_def Let_def)

lemma std_main_unknown:
  assumes "execute_mode Args" and "Stdin = Inr bytes"
    and "bytes = [] \<and> params = Map.empty \<or> bytes \<noteq> [] \<and> Unmarshal bytes = Inr params"
    and "Execute plugin (Args ! 1) params = (None, Some (''unknown action: '' @ Args ! 1))"
  shows "std_main parse_msg Unmarshal plugin Args Stdin =
           \<lparr>stdout = [error_envelope (''unknown action: '' @ Args ! 1)], exit_code = 0,
            stdin_read = True, executed = [(Args ! 1, params)]\<rparr>"
proof -
  have "std_main parse_msg Unmarshal plugin Args Stdin = run_Execute plugin (Args ! 1) params"
    using assms(1,2,3) by (rule std_main_execute)
  with assms(4) show ?thesis by (simp add: run_Execute_def)
qed

lemma slack_main_unknown:
  assumes "execute_mode Args" and "Args ! 1 \<noteq> ''message''" and "Args ! 1 \<noteq> ''webhook''"
  shows "stdout (slack_main Decode (slack_plugin sendMessage sendWebhook actions) Args Stdin) =
           [error_envelope (''Unknown action: '' @ Args ! 1)]"
    and "exit_code (slack_main Decode (slack_plugin sendMessage sendWebhook actions) Args Stdin) = 0"
  using assms
  by (simp_all add: slack_main_def execute_mode_def Let_def slack_plugin_def slack_Execute_def
        error_envelope_def)

lemma llm_main_unknown:
  assumes "execute_mode Args" and "Stdin = Inr bytes"
    and "bytes = [] \<or> TrimSpace bytes = [] \<or> Unmarshal (TrimSpace bytes) = Inr params"
    and "Args ! 1 \<noteq> ''generate''" and "Args ! 1 \<noteq> ''chat''" and "Args ! 1 \<noteq> ''ollama''"
  shows "stdout (llm_main TrimSpace Unmarshal
                  (llm_plugin openaiGenerate openaiChat ollamaGenerate actions) Args Stdin) =
           [error_envelope (''Unknown action: '' @ Args ! 1)]"
    and "exit_code (llm_main TrimSpace Unmarshal
                  (llm_plugin openaiGenerate openaiChat ollamaGenerate actions) Args Stdin) = 0"
  using assms
  by (auto simp: llm_main_def execute_mode_def Let_def llm_plugin_def llm_Execute_def
        error_envelope_def)

lemma terraform_main_unknown:
  assumes "execute_mode Args"
    and "Args ! 1 \<notin> set [''init'', ''plan'', ''apply'', ''destroy'', ''validate'',
                          ''output'', ''workspace'', ''import'']"
  shows "stdout (terraform_main Unmarshal (terraform_plugin Getwd handler actions) Args Stdin) =
           [error_envelope (''Unknown action: '' @ Args ! 1)]"
    and "exit_code (terraform_main Unmarshal (terraform_plugin Getwd handler actions) Args Stdin) = 0"
  using assms
  by (simp_all add: terraform_main_def execute_mode_def Let_def terraform_plugin_def
        terraform_Execute_def run_Execute_def error_envelope_def)

text \<open>
  C1, as amended. In execute mode, with an action name the plugin does not register and
  standard input that is empty or decodes, the calculator, http and template plugins
  write the one envelope \<open>{"error": "unknown action: <name>"}\<close> and exit with code 0;
  the slack, llm and terraform plugins write \<open>{"error": "Unknown action: <name>"}\<close>, with
  a capital U, and exit with code 0 as well.
\<close>

theorem C1_unknown_action:
  assumes "execute_mode Args" and "Stdin = Inr bytes"
    and "bytes = [] \<and> params = Map.empty \<or> bytes \<noteq> [] \<and> Unmarshal bytes = Inr params"
  shows "(Args ! 1 \<noteq> ''calculate'' \<longrightarrow>
           calculator_main ops ParseExpr Unmarshal Args Stdin =
             \<lparr>stdout = [error_envelope (''unknown action: '' @ Args ! 1)], exit_code = 0,
              stdin_read = True, executed = [(Args ! 1, params)]\<rparr>) \<and>
         (Args ! 1 \<noteq> ''get'' \<and> Args ! 1 \<noteq> ''post'' \<longrightarrow>
           http_main ops client Unmarshal Args Stdin =
             \<lparr>stdout = [error_envelope (''unknown action: '' @ Args ! 1)], exit_code = 0,
              stdin_read = True, executed = [(Args ! 1, params)]\<rparr>) \<and>
         (Args ! 1 \<noteq> ''example_action'' \<longrightarrow>
           template_main ops Unmarshal Args Stdin =
             \<lparr>stdout = [error_envelope (''unknown action: '' @ Args ! 1)], exit_code = 0,
              stdin_read = True, executed = [(Args ! 1, params)]\<rparr>) \<and>
         (Args ! 1 \<noteq> ''message'' \<and> Args ! 1 \<noteq> ''webhook'' \<longrightarrow>
           stdout (slack_main Decode (slack_plugin sendMessage sendWebhook slack_actions)
                     Args Stdin) =
             [error_envelope (''Unknown action: '' @ Args ! 1)] \<and>
           exit_code (slack_main Decode (slack_plugin sendMessage sendWebhook slack_actions)
                     Args Stdin) = 0) \<and>
         (Args ! 1 \<noteq> ''generate'' \<and> Args ! 1 \<noteq> ''chat'' \<and> Args ! 1 \<noteq> ''ollama'' \<and>
          (bytes = [] \<or> TrimSpace bytes = [] \<or> Unmarshal (TrimSpace bytes) = Inr params) \<longrightarrow>
           stdout (llm_main TrimSpace Unmarshal
                     (llm_plugin openaiGenerate openaiChat ollamaGenerate llm_actions)
                     Args Stdin) =
             [error_envelope (''Unknown action: '' @ Args ! 1)] \<and>
           exit_code (llm_main TrimSpace Unmarshal
                     (llm_plugin openaiGenerate openaiChat ollamaGenerate llm_actions)
                     Args Stdin) = 0) \<and>
         (Args ! 1 \<notin> set [''init'', ''plan'', ''apply'', ''destroy'', ''validate'',
                           ''output'', ''workspace'', ''import''] \<longrightarrow>
           stdout (terraform_main Unmarshal (terraform_plugin Getwd handler terraform_actions)
                     Args Stdin) =
             [error_envelope (''Unknown action: '' @ Args ! 1)] \<and>
           exit_code (terraform_main Unmarshal (terraform_plugin Getwd handler terraform_actions)
                     Args Stdin) = 0)"
proof -
  have calc: "Args ! 1 \<noteq> ''calculate'' \<longrightarrow>
      calculator_main ops ParseExpr Unmarshal Args Stdin =
        \<lparr>stdout = [error_envelope (''unknown action: '' @ Args ! 1)], exit_code = 0,
         stdin_read = True, executed = [(Args ! 1, params)]\<rparr>"
  proof
    assume "Args ! 1 \<noteq> ''calculate''"
    then have "Execute (calculator_plugin ops ParseExpr) (Args ! 1) params =
        (None, Some (''unknown action: '' @ Args ! 1))"
      by (simp add: calculator_plugin_def calculator_Execute_def)
    with assms show "calculator_main ops ParseExpr Unmarshal Args Stdin =
        \<lparr>stdout = [error_envelope (''unknown action: '' @ Args ! 1)], exit_code = 0,
         stdin_read = True, executed = [(Args ! 1, params)]\<rparr>"
      unfolding calculator_main_def by (rule std_main_unknown)
  qed
  have http: "Args ! 1 \<noteq> ''get'' \<and> Args ! 1 \<noteq> ''post'' \<longrightarrow>
      http_main ops client Unmarshal Args Stdin =
        \<lparr>stdout = [error_envelope (''unknown action: '' @ Args ! 1)], exit_code = 0,
         stdin_read = True, executed = [(Args ! 1, params)]\<rparr>"
  proof
    assume "Args ! 1 \<noteq> ''get'' \<and> Args ! 1 \<noteq> ''post''"
    then have "Execute (http_plugin ops client) (Args ! 1) params =
        (None, Some (''unknown action: '' @ Args ! 1))"
      by (simp add: http_plugin_def http_Execute_def)
    with assms show "http_main ops client Unmarshal Args Stdin =
        \<lparr>stdout = [error_envelope (''unknown action: '' @ Args ! 1)], exit_code = 0,
         stdin_read = True, executed = [(Args ! 1, params)]\<rparr>"
      unfolding http_main_def by (rule std_main_unknown)
  qed
  have template: "Args ! 1 \<noteq> ''example_action'' \<longrightarrow>
      template_main ops Unmarshal Args Stdin =
        \<lparr>stdout = [error_envelope (''unknown action: '' @ Args ! 1)], exit_code = 0,
         stdin_read = True, executed = [(Args ! 1, params)]\<rparr>"
  proof
    assume "Args ! 1 \<noteq> ''example_action''"
    then have "Execute (template_plugin ops) (Args ! 1) params =
        (None, Some (''unknown action: '' @ Args ! 1))"
      by (simp add: template_plugin_def template_Execute_def)
    with assms show "template_main ops Unmarshal Args Stdin =
        \<lparr>stdout = [error_envelope (''unknown action: '' @ Args ! 1)], exit_code = 0,
         stdin_read = True, executed = [(Args ! 1, params)]\<rparr>"
      unfolding template_main_def by (rule std_main_unknown)
  qed
  note slack = slack_main_unknown [OF assms(1)]
  note llm = llm_main_unknown [OF assms(1,2)]
  note terraform = terraform_main_unknown [OF assms(1)]
  show ?thesis
    by (intro conjI calc http template impI; (elim conjE)?; (rule slack llm terraform; assumption))
qed

theorem C1_unknown_action_witness:
  "calculator_main exact arith_ParseExpr (\<lambda>b. Inr Map.empty) [''plugin'', ''badaction'']
       (Inr []) =
     \<lparr>stdout = [error_envelope ''unknown action: badaction''], exit_code = 0,
      stdin_read = True, executed = [(''badaction'', Map.empty)]\<rparr> \<and>
   stdout (slack_main (\<lambda>b. Inl ''EOF'') (slack_unconfigured :: (_, _, rat, _) plugin)
             [''plugin'', ''badaction''] (Inr [])) =
     [error_envelope ''Unknown action: badaction'']"
  using C1_unknown_action [where Args = "[''plugin'', ''badaction'']" and Stdin = "Inr []"
      and bytes = "[]" and params = Map.empty and Unmarshal = "\<lambda>b. Inr Map.empty"
      and ops = exact and ParseExpr = arith_ParseExpr and client = offline_client
      and Decode = "\<lambda>b. Inl ''EOF''"
      and sendMessage = "\<lambda>params. Some [''error'' \<mapsto> JString ''SLACK_BOT_TOKEN not configured'']"
      and sendWebhook = "\<lambda>params. Some [''error'' \<mapsto> JString ''SLACK_WEBHOOK_URL not configured'']"
      and slack_actions = "()" and TrimSpace = "\<lambda>b. b"
      and openaiGenerate = "\<lambda>p. None" and openaiChat = "\<lambda>p. None"
      and ollamaGenerate = "\<lambda>p. None" and llm_actions = "()" and Getwd = "''/''"
      and handler = "\<lambda>a w p. (None, None)" and terraform_actions = "()"]
  apply (simp add: execute_mode_def slack_unconfigured_def)
  apply (elim conjE, intro conjI; assumption)
  done

text \<open>
  C1 as the specification states it fails on the slack plugin: for the argument
  \<open>badaction\<close> and empty standard input it does not write
  \<open>{"error": "unknown action: badaction"}\<close>.
\<close>

theorem C1_slack_counterexample:
  "stdout (slack_main (\<lambda>b. Inl ''EOF'') (slack_unconfigured :: (_, _, rat, _) plugin)
             [''slack'', ''badaction''] (Inr [])) \<noteq>
     [error_envelope ''unknown action: badaction'']"
  by (auto simp: slack_main_def slack_unconfigured_def slack_plugin_def slack_Execute_def error_envelope_def Let_def
        dest: map_upd_eqD1)

subsection \<open>Missing and mistyped parameters, defaults\<close>

lemma http_get_inputs:
  "map_option (\<lambda>s. (IOSpec.Type s, Required s, Default s)) (input_spec http_GetActions ''get'' ''url'') =
     Some (''string'', True, None)"
  "map_option (\<lambda>s. (IOSpec.Type s, Required s, Default s))
       (input_spec http_GetActions ''get'' ''timeout'') =
     Some (''number'', False, Some (GoInt 30))"
  by (simp_all add: input_spec_def http_GetActions_def)

lemma makeGetRequest_no_url:
  "(\<forall>url. params ''url'' \<noteq> Some (JString url)) \<or> params ''url'' = Some (JString []) \<Longrightarrow>
   makeGetRequest ops client params = (Some [''error'' \<mapsto> JString ''url is required''], None)"
  by (auto simp: makeGetRequest_def split: option.splits json.splits)

text \<open>
  C2. The \<open>get\<close> action of the http plugin declares \<open>url\<close> as a required string and
  \<open>timeout\<close> as a number with default 30. On the input object \<open>{}\<close> its handler sends no
  request and returns the failure envelope \<open>{"error": "url is required"}\<close>, which names
  the missing parameter, and through \<open>main\<close> that envelope is what is written, with exit
  code 0.
\<close>

theorem C2_missing_url:
  assumes "Unmarshal ''{}'' = Inr Map.empty" and "length Args = 2" and "Args ! 1 = ''get''"
  shows "map_option (\<lambda>s. (IOSpec.Type s, Required s, Default s))
             (input_spec http_GetActions ''get'' ''url'') =
           Some (''string'', True, None) \<and>
         map_option (\<lambda>s. (IOSpec.Type s, Required s, Default s))
             (input_spec http_GetActions ''get'' ''timeout'') =
           Some (''number'', False, Some (GoInt 30)) \<and>
         makeGetRequest ops client Map.empty =
           (Some [''error'' \<mapsto> JString ''url is required''], None) \<and>
         http_main ops client Unmarshal Args (Inr ''{}'') =
           \<lparr>stdout = [error_envelope ''url is required''], exit_code = 0,
            stdin_read = True, executed = [(''get'', Map.empty)]\<rparr>"
proof -
  have m: "makeGetRequest ops client Map.empty =
      (Some [''error'' \<mapsto> JString ''url is required''], None)"
    by (simp add: makeGetRequest_no_url)
  have "http_main ops client Unmarshal Args (Inr ''{}'') =
      run_Execute (http_plugin ops client) (Args ! 1) Map.empty"
    using assms by (simp add: http_main_def std_main_def Let_def)
  then have "http_main ops client Unmarshal Args (Inr ''{}'') =
      \<lparr>stdout = [error_envelope ''url is required''], exit_code = 0,
       stdin_read = True, executed = [(''get'', Map.empty)]\<rparr>"
    using assms(3) m
    by (simp add: run_Execute_def http_plugin_def http_Execute_def error_envelope_def)
  with m show ?thesis by (simp add: http_get_inputs)
qed

theorem C2_missing_url_witness:
  "makeGetRequest exact offline_client Map.empty =
     (Some [''error'' \<mapsto> JString ''url is required''], None) \<and>
   http_main exact offline_client (\<lambda>b. Inr Map.empty) [''http'', ''get''] (Inr ''{}'') =
     \<lparr>stdout = [error_envelope ''url is required''], exit_code = 0,
      stdin_read = True, executed = [(''get'', Map.empty)]\<rparr>"
  using C2_missing_url [where Unmarshal = "\<lambda>b. Inr Map.empty" and Args = "[''http'', ''get'']"
      and ops = exact and client = offline_client]
  by simp

text \<open>
  C3, as amended. In the template's \<open>exampleAction\<close>, the required string parameter
  \<open>input_param\<close> present with a value that is no string (\<open>{"input_param": 42}\<close>) gives the
  failure envelope \<open>{"error": "input_param must be a string"}\<close>: it names the parameter
  and the expected type, not the observed type. The optional number parameter
  \<open>optional_param\<close> present with a value that is no number gives no error: its default 10
  is used, as \<open>getFloatParam\<close> returns its \<open>defaultValue\<close> for such a value.
\<close>

theorem C3_type_mismatch:
  "((\<forall>s. params ''input_param'' \<noteq> Some (JString s)) \<longrightarrow>
      exampleAction ops params =
        (Some [''error'' \<mapsto> JString ''input_param must be a string''], None)) \<and>
   (params ''input_param'' = Some (JString inputParam) \<and>
    (\<forall>v. params ''optional_param'' \<noteq> Some (JNumber v)) \<longrightarrow>
      exampleAction ops params =
        (Some [''result'' \<mapsto> JString (''Processed '' @ inputParam @ '' with value '' @
                                       fmt_2f ops (float64_of_int ops 10)),
               ''success'' \<mapsto> JBool True], None)) \<and>
   ((\<forall>v. params key \<noteq> Some (JNumber v)) \<longrightarrow> getFloatParam params key defaultValue = defaultValue)"
proof (intro conjI impI)
  assume "\<forall>s. params ''input_param'' \<noteq> Some (JString s)"
  then show "exampleAction ops params =
      (Some [''error'' \<mapsto> JString ''input_param must be a string''], None)"
    by (cases "params ''input_param''"; cases "the (params ''input_param'')")
       (simp_all add: exampleAction_def)
next
  assume a: "params ''input_param'' = Some (JString inputParam) \<and>
    (\<forall>v. params ''optional_param'' \<noteq> Some (JNumber v))"
  then have "exampleAction_optionalParam ops params = float64_of_int ops 10"
    by (cases "params ''optional_param''"; cases "the (params ''optional_param'')")
       (simp_all add: exampleAction_optionalParam_def)
  with a show "exampleAction ops params =
      (Some [''result'' \<mapsto> JString (''Processed '' @ inputParam @ '' with value '' @
                                     fmt_2f ops (float64_of_int ops 10)),
             ''success'' \<mapsto> JBool True], None)"
    by (simp add: exampleAction_def)
next
  assume "\<forall>v. params key \<noteq> Some (JNumber v)"
  then show "getFloatParam params key defaultValue = defaultValue"
    by (cases "params key"; cases "the (params key)") (simp_all add: getFloatParam_def)
qed

theorem C3_type_mismatch_witness:
  "exampleAction exact [''input_param'' \<mapsto> JNumber 42] =
     (Some [''error'' \<mapsto> JString ''input_param must be a string''], None)"
  using C3_type_mismatch [where params = "[''input_param'' \<mapsto> JNumber 42]" and ops = exact
      and inputParam = "[]" and key = "''input_param''" and defaultValue = 0]
  by simp

text \<open>
  C3 as the specification states it fails in \<open>exampleAction\<close>: the declared number
  parameter \<open>optional_param\<close>, present with the string \<open>"abc"\<close>, raises no error; the
  action succeeds with the default 10.
\<close>

theorem C3_optional_counterexample:
  "exampleAction exact [''input_param'' \<mapsto> JString ''x'', ''optional_param'' \<mapsto> JString ''abc''] =
     (Some [''result'' \<mapsto> JString ''Processed x with value 10.00'', ''success'' \<mapsto> JBool True],
      None)"
proof -
  have "exact_fmt_2f 10 = ''10.00''" by code_simp
  then show ?thesis
    by (simp add: exampleAction_def exampleAction_optionalParam_def exact_def)
qed

lemma declared_defaults:
  "map_option Default (input_spec calculator_GetActions ''calculate'' ''precision'') =
     Some (Some (GoInt 2))"
  "map_option Default (input_spec template_GetActions ''example_action'' ''optional_param'') =
     Some (Some (GoInt 10))"
  by (simp_all add: input_spec_def calculator_GetActions_def template_GetActions_def)

lemma calculator_optional_inputs:
  "input_spec calculator_GetActions ''calculate'' name = Some spec \<Longrightarrow> \<not> Required spec \<Longrightarrow>
   name = ''precision''"
  by (simp add: input_spec_def calculator_GetActions_def split: if_splits) auto

lemma template_optional_inputs:
  "input_spec template_GetActions ''example_action'' name = Some spec \<Longrightarrow> \<not> Required spec \<Longrightarrow>
   name = ''optional_param''"
  by (simp add: input_spec_def template_GetActions_def split: if_splits) auto

lemma absent_precision:
  "params ''precision'' = None \<Longrightarrow> calculate_precision ops params = 2"
  by (simp add: calculate_precision_def)

lemma absent_optional_param:
  "params ''optional_param'' = None \<Longrightarrow>
   exampleAction_optionalParam ops params = float64_of_int ops 10"
  by (simp add: exampleAction_optionalParam_def)

lemma http_declared_default:
  "map_option Default (input_spec http_GetActions ''get'' ''timeout'') = Some (Some (GoInt 30))"
  by (simp add: input_spec_def http_GetActions_def)

lemma absent_timeout:
  "params ''timeout'' = None \<Longrightarrow> client_Timeout ops params = 30 * 1000000000"
  by (simp add: client_Timeout_def)

lemma slack_declared_defaults:
  "map_option (\<lambda>s. (Required s, Default s)) (slack_message_Inputs ''username'') =
     Some (False, None)"
  "map_option (\<lambda>s. (Required s, Default s)) (slack_message_Inputs ''icon_emoji'') =
     Some (False, None)"
  by (simp_all add: slack_message_Inputs_def)

lemma absent_username:
  "params ''username'' = None \<Longrightarrow>
   slack_sendMessage_data params ''username'' = Some (JString ''Corynth Bot'')"
  by (simp add: slack_sendMessage_data_def Let_def)

lemma absent_icon_emoji:
  "params ''icon_emoji'' = None \<Longrightarrow>
   slack_sendMessage_data params ''icon_emoji'' = Some (JString '':robot_face:'')"
  by (simp add: slack_sendMessage_data_def Let_def)

text \<open>
  C4, as amended. In the calculator's \<open>calculate\<close>, the template's \<open>example_action\<close> and
  the http plugin's \<open>get\<close>, an optional parameter that declares a default and is absent
  from the input object takes exactly that default: 2 for \<open>precision\<close> and 10 for
  \<open>optional_param\<close> (the one optional parameter of their actions), 30 seconds for
  \<open>timeout\<close>. An absent optional parameter that declares no default is not always left
  without a value: the slack plugin's \<open>message\<close> declares \<open>username\<close> and \<open>icon_emoji\<close>
  without a default, and \<open>sendMessage\<close> sends \<open>Corynth Bot\<close> and \<open>:robot_face:\<close> when they
  are absent.
\<close>

theorem C4_default_substitution:
  "(params ''precision'' = None \<longrightarrow>
      map_option Default (input_spec calculator_GetActions ''calculate'' ''precision'') =
        Some (Some (GoInt (calculate_precision ops params)))) \<and>
   (params ''optional_param'' = None \<longrightarrow>
      map_option Default (input_spec template_GetActions ''example_action'' ''optional_param'') =
        Some (Some (GoInt 10)) \<and>
      exampleAction_optionalParam ops params = float64_of_int ops 10) \<and>
   (input_spec calculator_GetActions ''calculate'' name = Some spec \<and> \<not> Required spec \<longrightarrow>
      name = ''precision'') \<and>
   (input_spec template_GetActions ''example_action'' name = Some spec \<and> \<not> Required spec \<longrightarrow>
      name = ''optional_param'') \<and>
   (params ''timeout'' = None \<longrightarrow>
      map_option Default (input_spec http_GetActions ''get'' ''timeout'') =
        Some (Some (GoInt 30)) \<and>
      client_Timeout ops params = 30 * 1000000000) \<and>
   (params ''username'' = None \<longrightarrow>
      map_option (\<lambda>s. (Required s, Default s)) (slack_message_Inputs ''username'') =
        Some (False, None) \<and>
      slack_sendMessage_data params ''username'' = Some (JString ''Corynth Bot'')) \<and>
   (params ''icon_emoji'' = None \<longrightarrow>
      map_option (\<lambda>s. (Required s, Default s)) (slack_message_Inputs ''icon_emoji'') =
        Some (False, None) \<and>
      slack_sendMessage_data params ''icon_emoji'' = Some (JString '':robot_face:''))"
  using calculator_optional_inputs [of name spec] template_optional_inputs [of name spec]
  by (simp add: declared_defaults absent_precision absent_optional_param absent_timeout
        slack_declared_defaults absent_username absent_icon_emoji http_declared_default)

theorem C4_default_substitution_witness:
  "map_option Default (input_spec calculator_GetActions ''calculate'' ''precision'') =
     Some (Some (GoInt (calculate_precision exact [''expression'' \<mapsto> JString ''1 + 1'']))) \<and>
   exampleAction_optionalParam exact [''input_param'' \<mapsto> JString ''x''] = 10"
  using C4_default_substitution [where params = "[''expression'' \<mapsto> JString ''1 + 1'']"
      and ops = exact and name = "''precision''"
      and spec = "\<lparr>Type = ''number'', Required = False, Default = Some (GoInt 2),
                    Description = ''Decimal precision for results''\<rparr>"]
    C4_default_substitution [where params = "[''input_param'' \<mapsto> JString ''x'']"
      and ops = exact and name = "''optional_param''"
      and spec = "\<lparr>Type = ''number'', Required = False, Default = Some (GoInt 10),
                    Description = ''An optional parameter with default''\<rparr>"]
  by (simp add: exact_def)

text \<open>
  C4 as the specification states it fails on the slack plugin: \<open>username\<close> is declared
  optional with no default, and for an input object without it \<open>sendMessage\<close> does not
  leave it without a value but sends \<open>Corynth Bot\<close>.
\<close>

theorem C4_slack_counterexample:
  "map_option (\<lambda>s. (Required s, Default s)) (slack_message_Inputs ''username'') =
     Some (False, None) \<and>
   slack_sendMessage ''xoxb-token'' (\<lambda>data. Some data)
       ([''channel'' \<mapsto> JString ''#general'', ''text'' \<mapsto> JString ''hello''] :: rat params) =
     Some [''channel'' \<mapsto> JString ''#general'', ''text'' \<mapsto> JString ''hello'',
           ''username'' \<mapsto> JString ''Corynth Bot'',
           ''icon_emoji'' \<mapsto> JString '':robot_face:'']"
  by (simp add: slack_message_Inputs_def slack_sendMessage_def slack_sendMessage_data_def Let_def)

subsection \<open>Standard input that does not decode, empty standard input\<close>

lemma std_main_undecodable:
  assumes "execute_mode Args" and "Stdin = Inr bytes" and "bytes \<noteq> []"
    and "Unmarshal bytes = Inl err"
  shows "std_main parse_msg Unmarshal plugin Args Stdin =
           \<lparr>stdout = [error_envelope (parse_msg @ err)], exit_code = 0,
            stdin_read = True, executed = []\<rparr>"
  using assms by (simp add: std_main_def execute_mode_def Let_def)

lemma llm_main_undecodable:
  assumes "execute_mode Args" and "Stdin = Inr bytes" and "bytes \<noteq> []"
    and "TrimSpace bytes \<noteq> []" and "Unmarshal (TrimSpace bytes) = Inl err"
  shows "llm_main TrimSpace Unmarshal plugin Args Stdin =
           \<lparr>stdout = [error_envelope (''Invalid JSON input: '' @ err)], exit_code = 0,
            stdin_read = True, executed = []\<rparr>"
  using assms by (simp add: llm_main_def execute_mode_def Let_def)

lemma llm_main_blank:
  assumes "execute_mode Args" and "Stdin = Inr bytes" and "TrimSpace bytes = []"
  shows "llm_main TrimSpace Unmarshal plugin Args Stdin =
           \<lparr>stdout = [OutResult (Execute plugin (Args ! 1) Map.empty)], exit_code = 0,
            stdin_read = True, executed = [(Args ! 1, Map.empty)]\<rparr>"
  using assms by (simp add: llm_main_def execute_mode_def Let_def)

lemma slack_main_undecodable:
  assumes "execute_mode Args" and "Stdin = Inr bytes" and "Decode bytes = Inl err"
  shows "slack_main Decode plugin Args Stdin =
           \<lparr>stdout = [OutResult (Execute plugin (Args ! 1) Map.empty)], exit_code = 0,
            stdin_read = True, executed = [(Args ! 1, Map.empty)]\<rparr>"
  using assms by (simp add: slack_main_def execute_mode_def Let_def)

lemma terraform_main_undecodable:
  assumes "execute_mode Args" and "Stdin = Inr bytes" and "Unmarshal bytes = Inl err"
  shows "terraform_main Unmarshal plugin Args Stdin = run_Execute plugin (Args ! 1) Map.empty"
  using assms by (simp add: terraform_main_def execute_mode_def Let_def)

text \<open>
  C5, as amended. In execute mode, with non-empty standard input that \<open>json.Unmarshal\<close>
  rejects, the calculator, http and template plugins write the one failure envelope
  \<open>failed to parse JSON: <parse error>\<close> (the template: \<open>failed to parse JSON input:\<close>),
  exit with code 0 and do not call \<open>Execute\<close>. The llm plugin trims standard input
  first: when something is left and \<open>json.Unmarshal\<close> rejects it, it writes the one
  failure envelope \<open>Invalid JSON input: <parse error>\<close>, exits with code 0 and does not
  call \<open>Execute\<close>; when nothing is left, the input being blank, it calls \<open>Execute\<close> with
  the empty parameter map. The slack and terraform plugins replace input that does not
  decode by the empty parameter map and call \<open>Execute\<close> with it.
\<close>

theorem C5_undecodable_stdin:
  assumes "execute_mode Args" and "Stdin = Inr bytes" and "bytes \<noteq> []"
  shows "(Unmarshal bytes = Inl err \<longrightarrow>
           calculator_main ops ParseExpr Unmarshal Args Stdin =
             \<lparr>stdout = [error_envelope (''failed to parse JSON: '' @ err)], exit_code = 0,
              stdin_read = True, executed = []\<rparr> \<and>
           http_main ops client Unmarshal Args Stdin =
             \<lparr>stdout = [error_envelope (''failed to parse JSON: '' @ err)], exit_code = 0,
              stdin_read = True, executed = []\<rparr> \<and>
           template_main ops Unmarshal Args Stdin =
             \<lparr>stdout = [error_envelope (''failed to parse JSON input: '' @ err)],
              exit_code = 0, stdin_read = True, executed = []\<rparr> \<and>
           terraform_main Unmarshal terraform Args Stdin =
             run_Execute terraform (Args ! 1) Map.empty) \<and>
         (TrimSpace bytes \<noteq> [] \<and> Unmarshal (TrimSpace bytes) = Inl err \<longrightarrow>
           llm_main TrimSpace Unmarshal llm Args Stdin =
             \<lparr>stdout = [error_envelope (''Invalid JSON input: '' @ err)], exit_code = 0,
              stdin_read = True, executed = []\<rparr>) \<and>
         (TrimSpace bytes = [] \<longrightarrow>
           llm_main TrimSpace Unmarshal llm Args Stdin =
             \<lparr>stdout = [OutResult (Execute llm (Args ! 1) Map.empty)], exit_code = 0,
              stdin_read = True, executed = [(Args ! 1, Map.empty)]\<rparr>) \<and>
         (Decode bytes = Inl err \<longrightarrow>
           slack_main Decode slack Args Stdin =
             \<lparr>stdout = [OutResult (Execute slack (Args ! 1) Map.empty)], exit_code = 0,
              stdin_read = True, executed = [(Args ! 1, Map.empty)]\<rparr>)"
  using assms
  by (simp add: calculator_main_def http_main_def template_main_def std_main_undecodable
        terraform_main_undecodable llm_main_undecodable llm_main_blank slack_main_undecodable)

theorem C5_undecodable_stdin_witness:
  "template_main exact (\<lambda>b. Inl ''invalid character'') [''plugin'', ''example_action'']
       (Inr ''not json'') =
     \<lparr>stdout = [error_envelope ''failed to parse JSON input: invalid character''],
      exit_code = 0, stdin_read = True, executed = []\<rparr> \<and>
   slack_main (\<lambda>b. Inl ''invalid character'') slack_unconfigured
       [''plugin'', ''example_action''] (Inr ''not json'') =
     \<lparr>stdout = [OutResult (Execute slack_unconfigured
                             ''example_action'' (Map.empty :: rat params))],
      exit_code = 0, stdin_read = True, executed = [(''example_action'', Map.empty)]\<rparr>"
  using C5_undecodable_stdin [where Args = "[''plugin'', ''example_action'']"
      and Stdin = "Inr ''not json''" and bytes = "''not json''"
      and Unmarshal = "\<lambda>b. Inl ''invalid character''" and err = "''invalid character''"
      and ops = exact and ParseExpr = arith_ParseExpr and client = offline_client
      and terraform = terraform_failing and TrimSpace = "\<lambda>b. b" and llm = llm_unconfigured
      and Decode = "\<lambda>b. Inl ''invalid character''" and slack = slack_unconfigured]
  apply (simp add: execute_mode_def)
  apply (elim conjE, intro conjI; assumption)
  done

text \<open>
  C5 as the specification states it fails on the slack plugin: on standard input that
  does not decode it calls \<open>Execute\<close>, with the empty parameter map, and writes what
  \<open>Execute\<close> returns.
\<close>

theorem C5_slack_counterexample:
  "executed (slack_main (\<lambda>b. Inl ''invalid character'') slack_unconfigured
       [''slack'', ''message''] (Inr ''not json'')) =
     [(''message'', (Map.empty :: rat params))] \<and>
   stdout (slack_main (\<lambda>b. Inl ''invalid character'') slack_unconfigured
       [''slack'', ''message''] (Inr ''not json'')) =
     [error_envelope ''SLACK_BOT_TOKEN not configured'']"
  by (simp add: slack_main_def slack_unconfigured_def slack_plugin_def slack_Execute_def Let_def
        error_envelope_def)

lemma run_Execute_reply:
  "run_Execute plugin action params =
     \<lparr>stdout = [reply_of (Execute plugin action params)], exit_code = 0,
      stdin_read = True, executed = [(action, params)]\<rparr>"
  by (simp add: run_Execute_def reply_of_def split: prod.splits option.splits)

lemma std_main_empty:
  "execute_mode Args \<Longrightarrow>
   std_main parse_msg Unmarshal plugin Args (Inr []) = run_Execute plugin (Args ! 1) Map.empty"
  by (simp add: std_main_def execute_mode_def Let_def)

lemma llm_main_empty:
  "execute_mode Args \<Longrightarrow>
   llm_main TrimSpace Unmarshal plugin Args (Inr []) =
     \<lparr>stdout = [OutResult (Execute plugin (Args ! 1) Map.empty)], exit_code = 0,
      stdin_read = True, executed = [(Args ! 1, Map.empty)]\<rparr>"
  by (simp add: llm_main_def execute_mode_def Let_def)

lemma terraform_main_empty:
  "execute_mode Args \<Longrightarrow>
   terraform_main Unmarshal plugin Args (Inr []) = run_Execute plugin (Args ! 1) Map.empty"
  by (simp add: terraform_main_def execute_mode_def Let_def)

text \<open>
  C6. In execute mode with empty standard input every \<open>main\<close> calls \<open>Execute\<close> once, with
  the action name and the empty parameter map, writes what it returns and exits with
  code 0; no decode error is written. In the calculator and the template the registered
  action's handler (\<open>calculate\<close>, \<open>exampleAction\<close>) is what runs on the empty map. The slack
  plugin's decoder fails on empty input (\<open>EOF\<close>), and its \<open>main\<close> then uses the empty map.
\<close>

theorem C6_empty_stdin:
  assumes "execute_mode Args"
  shows "std_main parse_msg Unmarshal plugin Args (Inr []) =
           \<lparr>stdout = [reply_of (Execute plugin (Args ! 1) Map.empty)], exit_code = 0,
            stdin_read = True, executed = [(Args ! 1, Map.empty)]\<rparr> \<and>
         (Args ! 1 = ''calculate'' \<longrightarrow>
            calculator_main ops ParseExpr Unmarshal Args (Inr []) =
              \<lparr>stdout = [reply_of (calculate ops ParseExpr Map.empty)], exit_code = 0,
               stdin_read = True, executed = [(''calculate'', Map.empty)]\<rparr>) \<and>
         (Args ! 1 = ''example_action'' \<longrightarrow>
            template_main ops Unmarshal Args (Inr []) =
              \<lparr>stdout = [reply_of (exampleAction ops Map.empty)], exit_code = 0,
               stdin_read = True, executed = [(''example_action'', Map.empty)]\<rparr>) \<and>
         llm_main TrimSpace Unmarshal llm Args (Inr []) =
           \<lparr>stdout = [OutResult (Execute llm (Args ! 1) Map.empty)], exit_code = 0,
            stdin_read = True, executed = [(Args ! 1, Map.empty)]\<rparr> \<and>
         terraform_main Unmarshal terraform Args (Inr []) =
           \<lparr>stdout = [reply_of (Execute terraform (Args ! 1) Map.empty)], exit_code = 0,
            stdin_read = True, executed = [(Args ! 1, Map.empty)]\<rparr> \<and>
         (Decode [] = Inl err \<longrightarrow>
            slack_main Decode slack Args (Inr []) =
              \<lparr>stdout = [OutResult (Execute slack (Args ! 1) Map.empty)], exit_code = 0,
               stdin_read = True, executed = [(Args ! 1, Map.empty)]\<rparr>)"
  using assms
  by (simp add: calculator_main_def template_main_def std_main_empty llm_main_empty
        terraform_main_empty slack_main_undecodable run_Execute_reply
        calculator_plugin_def calculator_Execute_def template_plugin_def template_Execute_def)

theorem C6_empty_stdin_witness:
  "calculator_main exact arith_ParseExpr (\<lambda>b. Inl ''unexpected end of JSON input'')
       [''plugin'', ''calculate''] (Inr []) =
     \<lparr>stdout = [OutResult (Some [''error'' \<mapsto> JString ''expression parameter is required''])],
      exit_code = 0, stdin_read = True, executed = [(''calculate'', Map.empty)]\<rparr>"
  using C6_empty_stdin [where Args = "[''plugin'', ''calculate'']" and ops = exact
      and ParseExpr = arith_ParseExpr and Unmarshal = "\<lambda>b. Inl ''unexpected end of JSON input''"
      and parse_msg = "[]" and plugin = "calculator_plugin exact arith_ParseExpr"
      and TrimSpace = "\<lambda>b. b" and llm = llm_unconfigured and terraform = terraform_failing
      and Decode = "\<lambda>b. Inl ''EOF''" and err = "''EOF''" and slack = slack_unconfigured]
  apply (simp add: execute_mode_def calculate_def reply_of_def)
  apply (elim conjE, assumption)
  done

subsection \<open>Exit codes\<close>

lemma run_Execute_exit:
  "exit_code (run_Execute plugin action params) = 0"
  "length (stdout (run_Execute plugin action params)) = 1"
  by (simp_all add: run_Execute_reply)

lemma std_main_no_mode:
  "length Args < 2 \<Longrightarrow> std_main parse_msg Unmarshal plugin Args Stdin = action_required"
  by (simp add: std_main_def)

lemma slack_main_no_mode:
  "length Args < 2 \<Longrightarrow> slack_main Decode plugin Args Stdin = action_required"
  by (simp add: slack_main_def)

lemma llm_main_no_mode:
  "length Args < 2 \<Longrightarrow> llm_main TrimSpace Unmarshal plugin Args Stdin = action_required"
  by (simp add: llm_main_def)

lemma terraform_main_no_mode:
  "length Args < 2 \<Longrightarrow> terraform_main Unmarshal plugin Args Stdin = action_required"
  by (simp add: terraform_main_def)

lemma std_main_mode:
  assumes "\<not> length Args < 2"
  shows "exit_code (std_main parse_msg Unmarshal plugin Args Stdin) = 0"
    and "length (stdout (std_main parse_msg Unmarshal plugin Args Stdin)) = 1"
  using assms
  by (simp_all add: std_main_def Let_def run_Execute_exit split: sum.splits)

lemma slack_main_mode:
  assumes "\<not> length Args < 2"
  shows "exit_code (slack_main Decode plugin Args Stdin) = 0"
    and "length (stdout (slack_main Decode plugin Args Stdin)) = 1"
  using assms by (simp_all add: slack_main_def Let_def)

lemma llm_main_mode:
  assumes "\<not> length Args < 2"
  shows "exit_code (llm_main TrimSpace Unmarshal plugin Args Stdin) = 0"
    and "length (stdout (llm_main TrimSpace Unmarshal plugin Args Stdin)) = 1"
  using assms by (simp_all add: llm_main_def Let_def split: sum.splits)

lemma terraform_main_mode:
  assumes "\<not> length Args < 2"
  shows "exit_code (terraform_main Unmarshal plugin Args Stdin) = 0"
    and "length (stdout (terraform_main Unmarshal plugin Args Stdin)) = 1"
  using assms by (simp_all add: terraform_main_def Let_def run_Execute_exit)

lemma process_of_outcome:
  assumes "exit_code out = (if length Args < 2 then 1 else 0)"
    and "length Args < 2 \<Longrightarrow> out = action_required"
  shows "process_of Encode panics out = exit_behaviour Encode panics Args out"
  using assms by (auto simp: process_of_def exit_behaviour_def action_required_def)

lemma exit_code_action_required: "exit_code (action_required :: ('m, 'a, 'f) outcome) = 1"
  by (simp add: action_required_def)

lemma std_main_process:
  "process_of Encode panics (std_main parse_msg Unmarshal plugin Args Stdin) =
     exit_behaviour Encode panics Args (std_main parse_msg Unmarshal plugin Args Stdin)"
  by (rule process_of_outcome)
     (simp_all add: std_main_no_mode std_main_mode exit_code_action_required)

lemma slack_main_process:
  "process_of Encode panics (slack_main Decode plugin Args Stdin) =
     exit_behaviour Encode panics Args (slack_main Decode plugin Args Stdin)"
  by (rule process_of_outcome)
     (simp_all add: slack_main_no_mode slack_main_mode exit_code_action_required)

lemma llm_main_process:
  "process_of Encode panics (llm_main TrimSpace Unmarshal plugin Args Stdin) =
     exit_behaviour Encode panics Args (llm_main TrimSpace Unmarshal plugin Args Stdin)"
  by (rule process_of_outcome)
     (simp_all add: llm_main_no_mode llm_main_mode exit_code_action_required)

lemma terraform_main_process:
  "process_of Encode panics (terraform_main Unmarshal plugin Args Stdin) =
     exit_behaviour Encode panics Args (terraform_main Unmarshal plugin Args Stdin)"
  by (rule process_of_outcome)
     (simp_all add: terraform_main_no_mode terraform_main_mode exit_code_action_required)

text \<open>
  C7, as amended. A plugin process exits with code 1 when the mode argument is missing,
  after handing the envelope \<open>{"error": "action required"}\<close> to the JSON encoder. With a
  mode argument it exits with code 0 whenever \<open>Execute\<close> returns or is not called,
  business failures included, after handing exactly one value to the encoder, which
  writes it as one document or, when it cannot encode it, writes nothing. No \<open>main\<close>
  recovers from a panic: if the call of \<open>Execute\<close> panics, the process exits with code 2
  and writes nothing, the mode argument being there.
\<close>

theorem C7_exit_codes:
  "process_of Encode panics (std_main parse_msg Unmarshal plugin Args Stdin) =
     exit_behaviour Encode panics Args (std_main parse_msg Unmarshal plugin Args Stdin) \<and>
   process_of Encode_std panics (calculator_main ops ParseExpr Unmarshal Args Stdin) =
     exit_behaviour Encode_std panics Args (calculator_main ops ParseExpr Unmarshal Args Stdin) \<and>
   process_of Encode_std panics (http_main ops client Unmarshal Args Stdin) =
     exit_behaviour Encode_std panics Args (http_main ops client Unmarshal Args Stdin) \<and>
   process_of Encode_std panics (template_main ops Unmarshal Args Stdin) =
     exit_behaviour Encode_std panics Args (template_main ops Unmarshal Args Stdin) \<and>
   reporting_process Encode_std Exec Unmarshal Args Stdin =
     exit_behaviour Encode_std (\<lambda>action params. panicked (Exec action params)) Args
       (std_main ''failed to parse JSON: '' Unmarshal (reporting_plugin Exec) Args Stdin) \<and>
   process_of Encode_slack panics (slack_main Decode slack Args Stdin) =
     exit_behaviour Encode_slack panics Args (slack_main Decode slack Args Stdin) \<and>
   process_of Encode_llm panics (llm_main TrimSpace Unmarshal llm Args Stdin) =
     exit_behaviour Encode_llm panics Args (llm_main TrimSpace Unmarshal llm Args Stdin) \<and>
   process_of Encode_terraform panics (terraform_main Unmarshal terraform Args Stdin) =
     exit_behaviour Encode_terraform panics Args
       (terraform_main Unmarshal terraform Args Stdin) \<and>
   (length Args \<ge> 2 \<longrightarrow>
      length (stdout (std_main parse_msg Unmarshal plugin Args Stdin)) = 1 \<and>
      length (stdout (calculator_main ops ParseExpr Unmarshal Args Stdin)) = 1 \<and>
      length (stdout (http_main ops client Unmarshal Args Stdin)) = 1 \<and>
      length (stdout (template_main ops Unmarshal Args Stdin)) = 1 \<and>
      length (stdout (std_main ''failed to parse JSON: '' Unmarshal (reporting_plugin Exec)
                        Args Stdin)) = 1 \<and>
      length (stdout (slack_main Decode slack Args Stdin)) = 1 \<and>
      length (stdout (llm_main TrimSpace Unmarshal llm Args Stdin)) = 1 \<and>
      length (stdout (terraform_main Unmarshal terraform Args Stdin)) = 1)"
  by (simp add: calculator_main_def http_main_def template_main_def reporting_process_def
        std_main_process slack_main_process llm_main_process terraform_main_process
        std_main_mode slack_main_mode llm_main_mode terraform_main_mode)

theorem C7_exit_codes_witness:
  "process_of encode_any (\<lambda>action params. False)
       (calculator_main exact arith_ParseExpr (\<lambda>b. Inr Map.empty) [''plugin''] (Inr [])) =
     \<lparr>written = [''{}''], status = 1\<rparr> \<and>
   process_of encode_any (\<lambda>action params. False)
       (calculator_main exact arith_ParseExpr (\<lambda>b. Inr Map.empty) [''plugin'', ''calculate'']
          (Inr [])) =
     \<lparr>written = [''{}''], status = 0\<rparr>"
proof -
  have a: "process_of encode_any (\<lambda>action params. False)
       (calculator_main exact arith_ParseExpr (\<lambda>b. Inr Map.empty) [''plugin''] (Inr [])) =
     exit_behaviour encode_any (\<lambda>action params. False) [''plugin'']
       (calculator_main exact arith_ParseExpr (\<lambda>b. Inr Map.empty) [''plugin''] (Inr []))"
    by (rule C7_exit_codes [THEN conjunct2, THEN conjunct1])
  have b: "process_of encode_any (\<lambda>action params. False)
       (calculator_main exact arith_ParseExpr (\<lambda>b. Inr Map.empty) [''plugin'', ''calculate'']
          (Inr [])) =
     exit_behaviour encode_any (\<lambda>action params. False) [''plugin'', ''calculate'']
       (calculator_main exact arith_ParseExpr (\<lambda>b. Inr Map.empty) [''plugin'', ''calculate'']
          (Inr []))"
    by (rule C7_exit_codes [THEN conjunct2, THEN conjunct1])
  show ?thesis
    unfolding a b
    by (simp add: exit_behaviour_def encode_any_def List.map_filter_def error_envelope_def
          calculator_main_def std_main_def run_Execute_def calculator_plugin_def
          calculator_Execute_def calculate_def Let_def)
qed

lemma create_chart_panics:
  "reporting_exact ''create_chart'' [''data'' \<mapsto> JObject [''a'' \<mapsto> JNumber (- 1)]] =
     Panics ''strings: negative Repeat count''"
  by (simp add: reporting_exact_def reporting_Execute_def createChart_def generateBarChart_def
        getStringParam_def getFloatParam_def convertToFloat_def map_index_def
        strings_Repeat_def exact_def trunc_rat_def Let_def)

text \<open>
  C7 as the specification states it fails on the reporting plugin: with the mode argument
  \<open>create_chart\<close> and the input \<open>{"data": {"a": -1}}\<close> the bar length is -60,
  \<open>strings.Repeat\<close> panics, and the process exits with code 2 and writes nothing.
\<close>

theorem C7_reporting_counterexample:
  "reporting_process encode_any reporting_exact
       (\<lambda>b. Inr [''data'' \<mapsto> JObject [''a'' \<mapsto> JNumber (- 1)]])
       [''reporting'', ''create_chart''] (Inr ''{\"data\": {\"a\": -1}}'') =
     \<lparr>written = [], status = 2\<rparr>"
  by (simp add: reporting_process_def process_of_def std_main_def run_Execute_def Let_def
        reporting_plugin_def create_chart_panics panicked_def returned_def)

subsection \<open>The calculator on 2 + 2 * 3\<close>

lemma round_half_away_int: "round_half_away (of_int a) = a"
  by (simp add: round_half_away_def floor_eq_iff ceiling_eq_iff)

lemma exact_is_exact: "exact_on_integers exact"
  unfolding exact_on_integers_def exact_def
  by (auto simp: round_half_away_int)

lemma exact_fadd:
  "exact_on_integers ops \<Longrightarrow> \<bar>a\<bar> \<le> 2 ^ 53 \<Longrightarrow> \<bar>b\<bar> \<le> 2 ^ 53 \<Longrightarrow> \<bar>a + b\<bar> \<le> 2 ^ 53 \<Longrightarrow>
   fadd ops (float64_of_int ops a) (float64_of_int ops b) = float64_of_int ops (a + b)"
  by (simp add: exact_on_integers_def)

lemma exact_fmul:
  "exact_on_integers ops \<Longrightarrow> \<bar>a\<bar> \<le> 2 ^ 53 \<Longrightarrow> \<bar>b\<bar> \<le> 2 ^ 53 \<Longrightarrow> \<bar>a * b\<bar> \<le> 2 ^ 53 \<Longrightarrow>
   fmul ops (float64_of_int ops a) (float64_of_int ops b) = float64_of_int ops (a * b)"
  by (simp add: exact_on_integers_def)

lemma exact_fquo:
  "exact_on_integers ops \<Longrightarrow> \<bar>a\<bar> \<le> 2 ^ 53 \<Longrightarrow> \<bar>b\<bar> \<le> 2 ^ 53 \<Longrightarrow> b \<noteq> 0 \<Longrightarrow> b dvd a \<Longrightarrow>
   fquo ops (float64_of_int ops a) (float64_of_int ops b) = float64_of_int ops (a div b)"
  by (simp add: exact_on_integers_def)

lemma exact_Round:
  "exact_on_integers ops \<Longrightarrow> \<bar>a\<bar> \<le> 2 ^ 53 \<Longrightarrow>
   math_Round ops (float64_of_int ops a) = float64_of_int ops a"
  unfolding exact_on_integers_def by metis

lemma exact_Pow:
  "exact_on_integers ops \<Longrightarrow> 0 \<le> n \<Longrightarrow> n \<le> 15 \<Longrightarrow>
   math_Pow ops (float64_of_int ops 10) (float64_of_int ops n) = float64_of_int ops (10 ^ nat n)"
  by (simp add: exact_on_integers_def)

lemma parse_tree_A: "arith_ParseExpr ''2 + 2 * 3'' = Inr tree_A"
  by code_simp

lemma ParseInt_1: "ParseInt ''1'' = Inr 1"
  by (simp add: ParseInt_def is_digit_def digit_val_def)

lemma ParseInt_2: "ParseInt ''2'' = Inr 2"
  by (simp add: ParseInt_def is_digit_def digit_val_def)

lemma ParseInt_3: "ParseInt ''3'' = Inr 3"
  by (simp add: ParseInt_def is_digit_def digit_val_def)

lemma eval_tree_A:
  assumes "exact_on_integers ops"
  shows "evalNode ops tree_A = Inr (float64_of_int ops 8)"
proof -
  have m: "fmul ops (float64_of_int ops 2) (float64_of_int ops 3) = float64_of_int ops 6"
    using exact_fmul [OF assms, of 2 3] by simp
  have a: "fadd ops (float64_of_int ops 2) (float64_of_int ops 6) = float64_of_int ops 8"
    using exact_fadd [OF assms, of 2 6] by simp
  show ?thesis
    by (simp add: tree_A_def evalBasicLit_def ParseInt_2 ParseInt_3 m a)
qed

lemma precision_A:
  assumes "exact_on_integers ops"
  shows "apply_precision ops 2 (float64_of_int ops 8) = float64_of_int ops 8"
proof -
  have p: "math_Pow ops (float64_of_int ops 10) (float64_of_int ops 2) = float64_of_int ops 100"
    using exact_Pow [OF assms, of 2] by simp
  have m: "fmul ops (float64_of_int ops 8) (float64_of_int ops 100) = float64_of_int ops 800"
    using exact_fmul [OF assms, of 8 100] by simp
  have r: "math_Round ops (float64_of_int ops 800) = float64_of_int ops 800"
    using exact_Round [OF assms, of 800] by simp
  have q: "fquo ops (float64_of_int ops 800) (float64_of_int ops 100) = float64_of_int ops 8"
    using exact_fquo [OF assms, of 800 100] by simp
  show ?thesis
    by (simp add: apply_precision_def p m r q)
qed

text \<open>
  C8. The calculator's \<open>calculate\<close> action on \<open>{"expression": "2 + 2 * 3"}\<close> returns the
  envelope \<open>{"result": 8, "expression": "2 + 2 * 3"}\<close> and a nil error, given that
  \<open>parser.ParseExpr\<close> parses the expression with the product below the sum and that
  \<open>float64\<close> arithmetic is exact on small integers.
\<close>

theorem C8_scenario_A:
  assumes "ParseExpr ''2 + 2 * 3'' = Inr tree_A"
    and "exact_on_integers ops"
  shows "calculate ops ParseExpr [''expression'' \<mapsto> JString ''2 + 2 * 3''] =
           (Some [''result'' \<mapsto> JNumber (float64_of_int ops 8),
                  ''expression'' \<mapsto> JString ''2 + 2 * 3''], None)"
  using assms
  by (simp add: calculate_def calculate_precision_def evaluateExpression_def
        eval_tree_A precision_A)

theorem C8_scenario_A_witness:
  "calculate exact arith_ParseExpr [''expression'' \<mapsto> JString ''2 + 2 * 3''] =
     (Some [''result'' \<mapsto> JNumber 8, ''expression'' \<mapsto> JString ''2 + 2 * 3''], None)"
  using C8_scenario_A [of arith_ParseExpr exact, OF parse_tree_A exact_is_exact]
  by (simp add: exact_def)

subsection \<open>Discovery modes\<close>

lemma discovery_std:
  assumes "length Args \<ge> 2" and "Args ! 1 = ''metadata'' \<or> Args ! 1 = ''actions''"
  shows "std_main parse_msg Unmarshal plugin Args Stdin =
           \<lparr>stdout = [if Args ! 1 = ''metadata'' then OutMetadata (GetMetadata plugin)
                       else OutActions (GetActions plugin)],
            exit_code = 0, stdin_read = False, executed = []\<rparr>"
  using assms by (auto simp: std_main_def Let_def)

lemma discovery_slack:
  assumes "length Args \<ge> 2" and "Args ! 1 = ''metadata'' \<or> Args ! 1 = ''actions''"
  shows "slack_main Decode plugin Args Stdin =
           \<lparr>stdout = [if Args ! 1 = ''metadata'' then OutMetadata (GetMetadata plugin)
                       else OutActions (GetActions plugin)],
            exit_code = 0, stdin_read = False, executed = []\<rparr>"
  using assms by (auto simp: slack_main_def Let_def)

lemma discovery_terraform:
  assumes "length Args \<ge> 2" and "Args ! 1 = ''metadata'' \<or> Args ! 1 = ''actions''"
  shows "terraform_main Unmarshal plugin Args Stdin =
           \<lparr>stdout = [if Args ! 1 = ''metadata''
                       then OutResult (Some (metadata_map (GetMetadata plugin)))
                       else OutActions (GetActions plugin)],
            exit_code = 0, stdin_read = True, executed = []\<rparr>"
  using assms by (auto simp: terraform_main_def Let_def)

lemma discovery_llm:
  assumes "length Args \<ge> 2" and "Args ! 1 = ''metadata'' \<or> Args ! 1 = ''actions''"
    and "Stdin = Inl e \<or> Stdin = Inr bytes \<and>
           (bytes = [] \<or> TrimSpace bytes = [] \<or> Unmarshal (TrimSpace bytes) = Inr params)"
  shows "llm_main TrimSpace Unmarshal plugin Args Stdin =
           \<lparr>stdout = [if Args ! 1 = ''metadata'' then OutMetadata (GetMetadata plugin)
                       else OutActions (GetActions plugin)],
            exit_code = 0, stdin_read = True, executed = []\<rparr>"
  using assms by (auto simp: llm_main_def Let_def)

text \<open>
  C9, as amended. In \<open>metadata\<close> or \<open>actions\<close> mode the calculator, http, template and
  slack plugins do not read standard input and write the plugin's metadata or action
  table, the same for every content of standard input. The terraform plugin reads
  standard input first and then writes the same value for every content. The llm plugin
  reads standard input first and writes the metadata or the table when standard input
  cannot be read, is empty or blank, or decodes.
\<close>

theorem C9_discovery:
  assumes "length Args \<ge> 2" and "Args ! 1 = ''metadata'' \<or> Args ! 1 = ''actions''"
  shows "std_main parse_msg Unmarshal plugin Args Stdin =
           \<lparr>stdout = [if Args ! 1 = ''metadata'' then OutMetadata (GetMetadata plugin)
                       else OutActions (GetActions plugin)],
            exit_code = 0, stdin_read = False, executed = []\<rparr> \<and>
         calculator_main ops ParseExpr Unmarshal Args Stdin =
           \<lparr>stdout = [if Args ! 1 = ''metadata'' then OutMetadata calculator_GetMetadata
                       else OutActions calculator_GetActions],
            exit_code = 0, stdin_read = False, executed = []\<rparr> \<and>
         slack_main Decode slack Args Stdin =
           \<lparr>stdout = [if Args ! 1 = ''metadata'' then OutMetadata (GetMetadata slack)
                       else OutActions (GetActions slack)],
            exit_code = 0, stdin_read = False, executed = []\<rparr> \<and>
         terraform_main Unmarshal terraform Args Stdin =
           \<lparr>stdout = [if Args ! 1 = ''metadata''
                       then OutResult (Some (metadata_map (GetMetadata terraform)))
                       else OutActions (GetActions terraform)],
            exit_code = 0, stdin_read = True, executed = []\<rparr> \<and>
         (Stdin = Inl e \<or> Stdin = Inr bytes \<and>
            (bytes = [] \<or> TrimSpace bytes = [] \<or> Unmarshal (TrimSpace bytes) = Inr params) \<longrightarrow>
          llm_main TrimSpace Unmarshal llm Args Stdin =
            \<lparr>stdout = [if Args ! 1 = ''metadata'' then OutMetadata (GetMetadata llm)
                        else OutActions (GetActions llm)],
             exit_code = 0, stdin_read = True, executed = []\<rparr>)"
proof -
  note d = discovery_std [OF assms] discovery_slack [OF assms] discovery_terraform [OF assms]
  have "calculator_main ops ParseExpr Unmarshal Args Stdin =
      \<lparr>stdout = [if Args ! 1 = ''metadata'' then OutMetadata calculator_GetMetadata
                  else OutActions calculator_GetActions],
       exit_code = 0, stdin_read = False, executed = []\<rparr>"
    by (simp add: calculator_main_def d(1) calculator_plugin_def)
  moreover have "Stdin = Inl e \<or> Stdin = Inr bytes \<and>
      (bytes = [] \<or> TrimSpace bytes = [] \<or> Unmarshal (TrimSpace bytes) = Inr params) \<longrightarrow>
    llm_main TrimSpace Unmarshal llm Args Stdin =
      \<lparr>stdout = [if Args ! 1 = ''metadata'' then OutMetadata (GetMetadata llm)
                  else OutActions (GetActions llm)],
       exit_code = 0, stdin_read = True, executed = []\<rparr>"
    using discovery_llm [OF assms] by blast
  ultimately show ?thesis using d by (intro conjI)
qed

theorem C9_discovery_witness:
  "calculator_main exact arith_ParseExpr (\<lambda>b. Inl ''invalid character'')
       [''plugin'', ''metadata''] (Inr ''not json'') =
     \<lparr>stdout = [OutMetadata calculator_GetMetadata], exit_code = 0,
      stdin_read = False, executed = []\<rparr>"
  using C9_discovery [where Args = "[''plugin'', ''metadata'']" and Stdin = "Inr ''not json''"
      and ops = exact and ParseExpr = arith_ParseExpr
      and Unmarshal = "\<lambda>b. Inl ''invalid character''"
      and parse_msg = "[]" and plugin = "calculator_plugin exact arith_ParseExpr"
      and Decode = "\<lambda>b. Inl ''invalid character''" and slack = slack_unconfigured
      and terraform = terraform_failing and TrimSpace = "\<lambda>b. b" and llm = llm_unconfigured
      and e = "[]" and bytes = "[]" and params = Map.empty]
  apply simp
  apply (elim conjE, assumption)
  done

text \<open>
  C9 as the specification states it fails on the llm plugin: in \<open>metadata\<close> mode it
  reads standard input, and it answers bytes that do not decode with an error envelope,
  not with the metadata it writes when standard input is empty.
\<close>

theorem C9_llm_counterexample:
  "llm_main (\<lambda>b. b) (\<lambda>b. Inl ''invalid character'') (llm_unconfigured :: (_, _, rat, _) plugin)
       [''llm'', ''metadata''] (Inr ''not json'') =
     \<lparr>stdout = [error_envelope ''Invalid JSON input: invalid character''], exit_code = 0,
      stdin_read = True, executed = []\<rparr> \<and>
   llm_main (\<lambda>b. b) (\<lambda>b. Inl ''invalid character'') (llm_unconfigured :: (_, _, rat, _) plugin)
       [''llm'', ''metadata''] (Inr []) =
     \<lparr>stdout = [OutMetadata llm_GetMetadata], exit_code = 0,
      stdin_read = True, executed = []\<rparr>"
  by (simp add: llm_main_def llm_unconfigured_def llm_plugin_def)

subsection \<open>Division by zero\<close>

lemma parse_tree_div0: "arith_ParseExpr ''1 / (2 - 2)'' = Inr tree_div0"
  by code_simp

lemma zero_divisor_error:
  "reaches_zero_divisor ops n \<Longrightarrow>
   evalNode ops n = Inl ''division by zero'' \<or> evalNode ops n = Inl ''modulo by zero''"
proof (induction n)
  case (BinaryExpr x op y)
  then show ?case
    by (auto split: sum.splits token.splits)
next
  case (UnaryExpr op x)
  then show ?case by (auto split: sum.splits token.splits)
qed simp_all

lemma calculate_error_envelope:
  assumes "params ''expression'' = Some (JString expression)" and "expression \<noteq> []"
    and "evaluateExpression ops ParseExpr expression = Inl err"
  shows "calculate ops ParseExpr params =
           (Some [''error'' \<mapsto> JString (''Invalid expression: '' @ err),
                  ''expression'' \<mapsto> JString expression], None)"
  using assms by (simp add: calculate_def)

text \<open>
  C10. When the evaluation of the parsed expression reaches a division or modulo whose
  right operand equals zero, \<open>calculate\<close> returns a nil error and the failure envelope
  whose \<open>error\<close> is \<open>Invalid expression: division by zero\<close> or
  \<open>Invalid expression: modulo by zero\<close> and whose \<open>expression\<close> is the original
  expression. The evaluator is a total function: the zero divisor is answered by an
  error value, never by a fault.
\<close>

theorem C10_zero_divisor:
  assumes "params ''expression'' = Some (JString expression)" and "expression \<noteq> []"
    and "ParseExpr expression = Inr n" and "reaches_zero_divisor ops n"
  shows "\<exists>msg. (msg = ''division by zero'' \<or> msg = ''modulo by zero'') \<and>
           calculate ops ParseExpr params =
             (Some [''error'' \<mapsto> JString (''Invalid expression: '' @ msg),
                    ''expression'' \<mapsto> JString expression], None)"
proof -
  from zero_divisor_error [OF assms(4)]
  obtain msg where m: "msg = ''division by zero'' \<or> msg = ''modulo by zero''"
    and e: "evalNode ops n = Inl msg" by blast
  from e assms(3) have "evaluateExpression ops ParseExpr expression = Inl msg"
    by (simp add: evaluateExpression_def)
  with assms(1,2) have "calculate ops ParseExpr params =
      (Some [''error'' \<mapsto> JString (''Invalid expression: '' @ msg),
             ''expression'' \<mapsto> JString expression], None)"
    by (rule calculate_error_envelope)
  with m show ?thesis by blast
qed

theorem C10_zero_divisor_witness:
  "\<exists>msg. (msg = ''division by zero'' \<or> msg = ''modulo by zero'') \<and>
     calculate exact arith_ParseExpr [''expression'' \<mapsto> JString ''1 / (2 - 2)''] =
       (Some [''error'' \<mapsto> JString (''Invalid expression: '' @ msg),
              ''expression'' \<mapsto> JString ''1 / (2 - 2)''], None)"
  by (rule C10_zero_divisor [where n = tree_div0])
     (simp_all add: parse_tree_div0 tree_div0_def evalBasicLit_def ParseInt_1 ParseInt_2 exact_def)

end
